theory Spec2Isabelle
  imports Complex_Main "HOL-Library.Word" "HOL-Library.Sublist"
begin

section \<open>The laser driver of \<^verbatim>\<open>src/src/driver/Laser_Driver.py\<close>\<close>

text \<open>
  The driver is one Python class, \<^verbatim>\<open>Laser_Driver\<close>, whose methods talk to two vendor
  libraries: the SideKick SDK of the laser controller (through \<^verbatim>\<open>ctypes\<close>) and the
  Zurich Instruments library of the lock-in amplifier. Both are outside the repository.
  They are modelled as a \<^emph>\<open>link\<close>: a record of functions that answer a call from the
  history of everything the driver has done so far. The driver object is a record of its
  attributes, together with that history and a clock. Every method takes the driver and
  returns it updated; a method that raises returns the exception and the driver as it
  stood when the exception left the method.
\<close>

subsection \<open>Exceptions\<close>

text \<open>
  The three exception classes of the module, and the built-in ones that the methods can
  raise by themselves. An exception is its class and its \<^verbatim>\<open>args\<close>: the statement
  \<^verbatim>\<open>raise Laser_Exception('Unable to arm laser')\<close> gives one argument, raising a class
  (\<^verbatim>\<open>raise e\<close> with \<^verbatim>\<open>e\<close> a class) gives none. For a built-in exception the one
  argument kept is the name that was missing.
\<close>

datatype exn_class =
    Laser_Exception | QCL_Exception | SDK_Exception
  | AttributeError | TypeError | KeyError | UnboundLocalError | ValueError

datatype exn = Exn (cls: exn_class) (args: "string list")

subsection \<open>The calls a driver makes\<close>

text \<open>\<^verbatim>\<open>self.handle\<close> is \<^verbatim>\<open>None\<close> until \<^verbatim>\<open>connect_laser\<close> stores a \<^verbatim>\<open>c_uint32\<close> in it.\<close>

type_synonym handle = "32 word option"

text \<open>The dictionary of \<^verbatim>\<open>_read_qcl_params\<close>: one \<^verbatim>\<open>ctypes\<close> pointer per key.\<close>

record qcl_params =
  qcl_slot_ptr :: "8 word"
  pulse_rate_hz_ptr :: "32 word"
  pulse_width_ns_ptr :: "32 word"
  current_ma_ptr :: "16 word"
  temp_c_ptr :: real
  laser_mode_ptr :: "8 word"
  pulse_mode_ptr :: "8 word"
  vsrc_ptr :: real

text \<open>SDK functions called through \<^verbatim>\<open>_call_sdk_bool\<close>, which checks their return code.\<close>

datatype checked_fn =
    SidekickSDK_Initialize
  | SidekickSDK_SearchForUsbDevices
  | SidekickSDK_GetNumOfDevices
  | SidekickSDK_ConnectToDeviceNumber "16 word"

text \<open>SDK functions that store one boolean through a pointer.\<close>

datatype status_fn =
    SidekickSDK_AdminQclIsAvailable
  | SidekickSDK_isInterlockedStatusSet
  | SidekickSDK_isKeySwitchStatusSet
  | SidekickSDK_isLaserArmed
  | SidekickSDK_isTuned
  | SidekickSDK_isTempStatusSet
  | SidekickSDK_isLaserFiring

text \<open>The other SDK functions, with the arguments the driver passes.\<close>

datatype sdk_call =
    SidekickSDK_ReadAdminQclParams handle nat
  | SidekickSDK_SetLaserArmDisarm handle bool
  | SidekickSDK_ExecLaserArmDisarm handle
  | SidekickSDK_ReadInfoStatusMask handle
  | SidekickSDK_ReadWriteLaserQclParams handle bool nat
  | SidekickSDK_GetLaserQclParams handle
  | SidekickSDK_SetLaserQclParams handle qcl_params
  | SidekickSDK_SetTuneToWW handle "8 word" real "8 word"
  | SidekickSDK_ExecTuneToWW handle
  | SidekickSDK_SetLaserOnOff handle nat bool
  | SidekickSDK_ExecLaserOnOff handle
  | SidekickSDK_ReadStatusMask handle
  | SidekickSDK_Disconnect handle

text \<open>The calls on the lock-in's \<^verbatim>\<open>daq\<close> object and on the \<^verbatim>\<open>zhinst\<close> module.\<close>

datatype zi_call =
    ziDAQServer string nat
  | autoDetect
  | getByte string
  | getInt string
  | setDouble string real
  | setInt string real
  | subscribe string
  | unsubscribe string
  | sync
  | poll nat nat

text \<open>
  What the driver did, in order: a checked SDK call with the code it returned, a status
  read with the boolean it stored, any other SDK call, a call of the lock-in library, a
  string written to \<^verbatim>\<open>sys.stderr\<close>.
\<close>

datatype event =
    Checked checked_fn int
  | Status status_fn handle bool
  | Sdk sdk_call
  | Zi zi_call
  | Stderr string

subsection \<open>What the lock-in returns from a poll\<close>

text \<open>
  \<^verbatim>\<open>poll\<close> returns nested dictionaries: device, then branch (\<^verbatim>\<open>'demods'\<close>), then
  channel, then node (\<^verbatim>\<open>'sample'\<close>). A dictionary is an association list here, so that
  \<^verbatim>\<open>len\<close> can be computed; a channel key is the number its string denotes. A sample
  holds the arrays \<^verbatim>\<open>sample['x']\<close>, \<^verbatim>\<open>sample['y']\<close> and \<^verbatim>\<open>sample['timestamp']\<close> and
  the flag \<^verbatim>\<open>sample['time']['dataloss']\<close>. Python floats are real numbers in this model.
\<close>

record sample =
  sample_x :: "real list"
  sample_y :: "real list"
  sample_timestamp :: "real list"
  sample_dataloss :: bool

type_synonym channel_dict = "(string \<times> sample) list"
type_synonym demods_dict = "(nat \<times> channel_dict) list"
type_synonym device_dict = "(string \<times> demods_dict) list"
type_synonym poll_data = "(string \<times> device_dict) list"

definition py_len :: "('k \<times> 'v) list \<Rightarrow> nat" where
  "py_len d = length (remdups (map fst d))"

subsection \<open>The link to the hardware\<close>

text \<open>
  Each field answers one kind of call from the events so far. \<open>sdk_return\<close> is the
  return code of a checked function; \<open>sdk_num_devices\<close> and \<open>sdk_new_handle\<close> are what
  \<^verbatim>\<open>GetNumOfDevices\<close> and \<^verbatim>\<open>ConnectToDeviceNumber\<close> store through their pointers;
  \<open>sdk_status\<close> is the boolean of a status read; \<open>sdk_qcl_params\<close> fills the eight
  pointers of \<^verbatim>\<open>GetLaserQclParams\<close>; \<open>sdk_status_mask\<close> gives the status, error and
  warning words. The SDK functions are C functions: they return codes and never raise.
\<close>

record link =
  sdk_return :: "event list \<Rightarrow> checked_fn \<Rightarrow> int"
  sdk_num_devices :: "event list \<Rightarrow> 16 word"
  sdk_new_handle :: "event list \<Rightarrow> 32 word"
  sdk_status :: "event list \<Rightarrow> status_fn \<Rightarrow> handle \<Rightarrow> bool"
  sdk_qcl_params :: "event list \<Rightarrow> handle \<Rightarrow> qcl_params"
  sdk_status_mask :: "event list \<Rightarrow> handle \<Rightarrow> 32 word \<times> 16 word \<times> 16 word"
  zi_autoDetect :: "event list \<Rightarrow> string"
  zi_getByte :: "event list \<Rightarrow> string \<Rightarrow> string"
  zi_getInt :: "event list \<Rightarrow> string \<Rightarrow> int"
  zi_poll :: "event list \<Rightarrow> poll_data"

subsection \<open>The driver object\<close>

text \<open>
  The attributes that \<^verbatim>\<open>__init__\<close> assigns, in its order and with its groups. After them
  come five attributes that methods of the class read or assign but \<^verbatim>\<open>__init__\<close> never
  creates: they are \<open>None\<close> while the object has no such attribute, and reading one
  then raises \<^verbatim>\<open>AttributeError\<close>. \<open>daq\<close> is \<open>True\<close> once \<^verbatim>\<open>self.daq\<close> holds a server
  object. The three channel attributes are the strings \<^verbatim>\<open>'0'\<close> in the source; the model
  keeps the number and prints it where a path is built. \<open>events\<close> and \<open>clock\<close> are
  not attributes: they are the history of calls and the time in seconds.
  \<^verbatim>\<open>time.sleep\<close> is the only thing that takes time.
\<close>

record driver =
  parameter_timeout :: nat
  qcl_set_params_timeout :: nat
  arm_laser_timeout :: nat
  cool_tecs_timeout :: nat
  cool_tecs_additional :: nat
  turn_on_laser_timeout :: nat
  laser_on_attempts :: nat
  laser_on_wait :: nat
  laser_on :: bool
  qcl_current_ma :: int
  qcl_pulse_rate_hz :: int
  qcl_pulse_width_ns :: int
  qcl_wavelength :: real
  qcl_wvlen_units :: int
  qcl_temp :: real
  lockin_ip :: string
  lockin_port :: nat
  lockin_amplitude :: real
  lockin_poll_length :: nat
  lockin_demod_c :: nat
  lockin_in_c :: nat
  lockin_osc_c :: nat
  lockin_osc_freq :: real
  lockin_time_constant :: real
  demod_idx :: real
  poll_timeout :: nat
  demod_rate :: real
  handle :: handle
  device :: "string option"
  daq :: bool
  qcl_current_ma_ma :: "int option"
  qcl_temp_c :: "real option"
  qcl_width_ns :: "int option"
  wavelength :: "real option"
  wvlen_units :: "int option"
  events :: "event list"
  clock :: real

text \<open>
  A method returns the driver, or raises: the exception and the driver as it then is.
  The attributes a method has assigned before it raises stay assigned.
\<close>

type_synonym result = "exn \<times> driver + driver"

fun state_of :: "result \<Rightarrow> driver" where
  "state_of (Inl (e, s)) = s"
| "state_of (Inr s) = s"

definition and_then :: "result \<Rightarrow> (driver \<Rightarrow> result) \<Rightarrow> result" where
  "and_then r f = (case r of Inl e \<Rightarrow> Inl e | Inr s \<Rightarrow> f s)"

definition emit :: "event \<Rightarrow> driver \<Rightarrow> driver" where
  "emit e s = s\<lparr>events := events s @ [e]\<rparr>"

definition sleep :: "real \<Rightarrow> driver \<Rightarrow> driver" where
  "sleep d s = s\<lparr>clock := clock s + d\<rparr>"

text \<open>\<^verbatim>\<open>str\<close> of a number that is not negative, for \<^verbatim>\<open>format\<close> and for the channel in a path.\<close>

fun dec :: "nat \<Rightarrow> string" where
  "dec n = (if n < 10 then [''0123456789'' ! n]
            else dec (n div 10) @ [''0123456789'' ! (n mod 10)])"

declare dec.simps [simp del]

text \<open>\<^verbatim>\<open>sub in s\<close> for two strings.\<close>

fun py_substring :: "string \<Rightarrow> string \<Rightarrow> bool" where
  "py_substring sub [] = (sub = [])"
| "py_substring sub (c # cs) = (prefix sub (c # cs) \<or> py_substring sub cs)"

subsection \<open>The constructor\<close>

definition sidekick_sdk_ret_success :: int where
  "sidekick_sdk_ret_success = 0"

definition qcl_read_is_write :: bool where
  "qcl_read_is_write = False"

definition qcl_update_is_write :: bool where
  "qcl_update_is_write = True"

text \<open>
  \<^verbatim>\<open>_call_sdk_bool\<close>: call the function, compare its return code with
  \<^verbatim>\<open>sidekick_sdk_ret_success\<close>, write the success message or raise.
\<close>

definition call_sdk_bool :: "link \<Rightarrow> checked_fn \<Rightarrow> string \<Rightarrow> string \<Rightarrow> driver \<Rightarrow> result" where
  "call_sdk_bool env sdk_fn success_msg error_msg s =
     (let ret = sdk_return env (events s) sdk_fn;
          s1 = emit (Checked sdk_fn ret) s
      in if ret = sidekick_sdk_ret_success then Inr (emit (Stderr success_msg) s1)
         else Inl (Exn SDK_Exception [error_msg], s1))"

text \<open>A status function stores its boolean through the pointer; the driver reads it.\<close>

definition read_status :: "link \<Rightarrow> status_fn \<Rightarrow> driver \<Rightarrow> bool \<times> driver" where
  "read_status env sdk_fn s =
     (let b = sdk_status env (events s) sdk_fn (handle s)
      in (b, emit (Status sdk_fn (handle s) b) s))"

text \<open>
  \<^verbatim>\<open>_call_sdk_bool_ptr\<close>: read the status; when it is false, disconnect and raise.
\<close>

definition call_sdk_bool_ptr :: "link \<Rightarrow> status_fn \<Rightarrow> string \<Rightarrow> string \<Rightarrow> driver \<Rightarrow> result" where
  "call_sdk_bool_ptr env sdk_fn success_msg error_msg s =
     (let (ret, s1) = read_status env sdk_fn s
      in if ret then Inr (emit (Stderr success_msg) s1)
         else Inl (Exn SDK_Exception [error_msg],
                   emit (Sdk (SidekickSDK_Disconnect (handle s1))) s1))"

text \<open>
  The attributes as \<^verbatim>\<open>__init__\<close> assigns them. \<^verbatim>\<open>c_uint8()\<close> is 0, and
  \<^verbatim>\<open>float('0') + 1\<close> is 1.
\<close>

definition attributes :: driver where
  "attributes = \<lparr>
     parameter_timeout = 20,
     qcl_set_params_timeout = 5,
     arm_laser_timeout = 20,
     cool_tecs_timeout = 60,
     cool_tecs_additional = 10,
     turn_on_laser_timeout = 30,
     laser_on_attempts = 3,
     laser_on_wait = 5,
     laser_on = False,
     qcl_current_ma = 1500,
     qcl_pulse_rate_hz = 100000,
     qcl_pulse_width_ns = 500,
     qcl_wavelength = 0,
     qcl_wvlen_units = 0,
     qcl_temp = 17,
     lockin_ip = ''192.168.48.102'',
     lockin_port = 8004,
     lockin_amplitude = 1,
     lockin_poll_length = 30,
     lockin_demod_c = 0,
     lockin_in_c = 0,
     lockin_osc_c = 0,
     lockin_osc_freq = 100000,
     lockin_time_constant = 1 / 100,
     demod_idx = 1,
     poll_timeout = 500,
     demod_rate = 2000,
     handle = None,
     device = None,
     daq = False,
     qcl_current_ma_ma = None,
     qcl_temp_c = None,
     qcl_width_ns = None,
     wavelength = None,
     wvlen_units = None,
     events = [],
     clock = 0 \<rparr>"

text \<open>\<^verbatim>\<open>__init__\<close>: the object exists only when the SDK initialises.\<close>

definition init :: "link \<Rightarrow> result" where
  "init env =
     call_sdk_bool env SidekickSDK_Initialize
       ''SDK initialization successful'' ''Unable to initialize SDK'' attributes"

subsection \<open>Connecting, and turning the laser off\<close>

definition connect_laser :: "link \<Rightarrow> driver \<Rightarrow> result" where
  "connect_laser env s =
     and_then (call_sdk_bool env SidekickSDK_SearchForUsbDevices
                 ''Found USB devices'' ''Error occured while searching for USB devices'' s)
     (\<lambda>s1.
     let num_devices = sdk_num_devices env (events s1) in
     and_then (call_sdk_bool env SidekickSDK_GetNumOfDevices
                 ''Got device count'' ''Error when getting device count'' s1)
     (\<lambda>s2.
     let new_handle = sdk_new_handle env (events s2) in
     and_then (call_sdk_bool env (SidekickSDK_ConnectToDeviceNumber (num_devices - 1))
                 ''Connected to laser'' ''Unable to connect to laser'' s2)
     (\<lambda>s3.
     let s4 = s3\<lparr>handle := Some new_handle\<rparr>;
         s5 = emit (Sdk (SidekickSDK_ReadAdminQclParams (handle s4) 0)) s4 in
     and_then (call_sdk_bool_ptr env SidekickSDK_AdminQclIsAvailable
                 ''QCL installed and detected'' ''QCL not detected'' s5)
     (\<lambda>s6.
     and_then (call_sdk_bool_ptr env SidekickSDK_isInterlockedStatusSet
                 ''Interlock set'' ''Interlock not set'' s6)
     (\<lambda>s7.
     call_sdk_bool_ptr env SidekickSDK_isKeySwitchStatusSet
       ''Keyswitch set'' ''Keyswitch not set'' s7)))))"

text \<open>
  \<^verbatim>\<open>turn_off_laser\<close> makes five SDK calls with \<^verbatim>\<open>self.handle\<close> and writes a message.
  It reads no return code and assigns no attribute.
\<close>

definition turn_off_calls :: "handle \<Rightarrow> event list" where
  "turn_off_calls h =
     [Sdk (SidekickSDK_SetLaserOnOff h 0 False),
      Sdk (SidekickSDK_ExecLaserOnOff h),
      Sdk (SidekickSDK_SetLaserArmDisarm h False),
      Sdk (SidekickSDK_ExecLaserArmDisarm h),
      Sdk (SidekickSDK_Disconnect h)]"

definition turn_off_laser :: "driver \<Rightarrow> driver" where
  "turn_off_laser s =
     (let turn_on = False;
          arm = False;
          s1 = emit (Sdk (SidekickSDK_SetLaserOnOff (handle s) 0 turn_on)) s;
          s2 = emit (Sdk (SidekickSDK_ExecLaserOnOff (handle s1))) s1;
          s3 = emit (Sdk (SidekickSDK_SetLaserArmDisarm (handle s2) arm)) s2;
          s4 = emit (Sdk (SidekickSDK_ExecLaserArmDisarm (handle s3))) s3;
          s5 = emit (Sdk (SidekickSDK_Disconnect (handle s4))) s4
      in emit (Stderr ''Laser off'') s5)"

subsection \<open>The polled stages that sleep one second\<close>

text \<open>
  \<^verbatim>\<open>arm_laser\<close>, \<^verbatim>\<open>set_wavelength\<close> and \<^verbatim>\<open>cool_tecs\<close> each command, read the status
  once, note the time and then loop: sleep a second, read again, and raise when more
  than the stage's timeout has passed since the note. The loop's condition is the
  boolean of the last read.
\<close>

function arm_laser_loop :: "link \<Rightarrow> real \<Rightarrow> bool \<Rightarrow> driver \<Rightarrow> result" where
  "arm_laser_loop env old_t is_armed s =
     (if \<not> is_armed then
        let s1 = sleep 1 s;
            s2 = emit (Sdk (SidekickSDK_ReadInfoStatusMask (handle s1))) s1;
            (is_armed', s3) = read_status env SidekickSDK_isLaserArmed s2;
            curr_t = clock s3
        in if curr_t - old_t > real (arm_laser_timeout s3)
           then Inl (Exn Laser_Exception [''Unable to arm laser''], s3)
           else arm_laser_loop env old_t is_armed' s3
      else Inr s)"
  by pat_completeness auto
termination
  by (relation "measure (\<lambda>(env, old_t, is_armed, s).
        nat \<lceil>real (arm_laser_timeout s) + old_t - clock s\<rceil>)")
     (auto simp: read_status_def emit_def sleep_def Let_def, linarith)

declare arm_laser_loop.simps [simp del]

definition arm_laser :: "link \<Rightarrow> driver \<Rightarrow> result" where
  "arm_laser env s =
     (let s1 = emit (Sdk (SidekickSDK_SetLaserArmDisarm (handle s) True)) s;
          s2 = emit (Sdk (SidekickSDK_ExecLaserArmDisarm (handle s1))) s1;
          s3 = emit (Sdk (SidekickSDK_ReadInfoStatusMask (handle s2))) s2;
          (is_armed, s4) = read_status env SidekickSDK_isLaserArmed s3;
          old_t = clock s4
      in and_then (arm_laser_loop env old_t is_armed s4)
           (\<lambda>s5. Inr (emit (Stderr ''Laser armed'') s5)))"

function set_wavelength_loop :: "link \<Rightarrow> real \<Rightarrow> bool \<Rightarrow> driver \<Rightarrow> result" where
  "set_wavelength_loop env old_t is_set s =
     (if \<not> is_set then
        let s1 = sleep 1 s;
            s2 = emit (Sdk (SidekickSDK_ExecTuneToWW (handle s1))) s1;
            (is_set', s3) = read_status env SidekickSDK_isTuned s2;
            curr_t = clock s3
        in if curr_t - old_t > real (parameter_timeout s3)
           then Inl (Exn Laser_Exception [''Wavelength not tuned.''], s3)
           else set_wavelength_loop env old_t is_set' s3
      else Inr s)"
  by pat_completeness auto
termination
  by (relation "measure (\<lambda>(env, old_t, is_set, s).
        nat \<lceil>real (parameter_timeout s) + old_t - clock s\<rceil>)")
     (auto simp: read_status_def emit_def sleep_def Let_def, linarith)

declare set_wavelength_loop.simps [simp del]

text \<open>
  \<^verbatim>\<open>c_uint8(units)\<close> keeps the low eight bits. \<^verbatim>\<open>c_float(value)\<close> rounds to single
  precision, which the model leaves out.
\<close>

definition set_wavelength :: "link \<Rightarrow> int \<Rightarrow> real \<Rightarrow> driver \<Rightarrow> result" where
  "set_wavelength env units val s =
     (let s0 = s\<lparr>wavelength := Some val, wvlen_units := Some units\<rparr>;
          s1 = emit (Sdk (SidekickSDK_SetTuneToWW (handle s0) (word_of_int units) val 0)) s0;
          s2 = emit (Sdk (SidekickSDK_ExecTuneToWW (handle s1))) s1;
          (is_set, s3) = read_status env SidekickSDK_isTuned s2;
          old_t = clock s3
      in and_then (set_wavelength_loop env old_t is_set s3)
           (\<lambda>s4. Inr (emit (Stderr ''Laser wavelength set successfully.'') s4)))"

function cool_tecs_loop :: "link \<Rightarrow> real \<Rightarrow> bool \<Rightarrow> driver \<Rightarrow> result" where
  "cool_tecs_loop env old_t is_temp_set s =
     (if \<not> is_temp_set then
        let s1 = sleep 1 s;
            s2 = emit (Sdk (SidekickSDK_ReadInfoStatusMask (handle s1))) s1;
            (is_temp_set', s3) = read_status env SidekickSDK_isTempStatusSet s2;
            curr_t = clock s3
        in if curr_t - old_t > real (cool_tecs_timeout s3)
           then Inl (Exn Laser_Exception [''TECs unable to cool''], s3)
           else cool_tecs_loop env old_t is_temp_set' s3
      else Inr s)"
  by pat_completeness auto
termination
  by (relation "measure (\<lambda>(env, old_t, is_temp_set, s).
        nat \<lceil>real (cool_tecs_timeout s) + old_t - clock s\<rceil>)")
     (auto simp: read_status_def emit_def sleep_def Let_def, linarith)

declare cool_tecs_loop.simps [simp del]

definition cool_tecs :: "link \<Rightarrow> driver \<Rightarrow> result" where
  "cool_tecs env s =
     (let s1 = emit (Sdk (SidekickSDK_ReadInfoStatusMask (handle s))) s;
          (is_temp_set, s2) = read_status env SidekickSDK_isTempStatusSet s1;
          old_t = clock s2
      in and_then (cool_tecs_loop env old_t is_temp_set s2)
           (\<lambda>s3. Inr (emit (Stderr ''TECs are at Temp'')
                          (sleep (real (cool_tecs_additional s3)) s3))))"

subsection \<open>Setting the QCL parameters\<close>

text \<open>
  \<^verbatim>\<open>_read_qcl_params\<close> makes the dictionary of eight pointers and lets the SDK fill
  it; \<^verbatim>\<open>_update_qcl_params\<close> passes the eight contents to the SDK and has them written.
\<close>

definition read_qcl_params :: "link \<Rightarrow> driver \<Rightarrow> qcl_params \<times> driver" where
  "read_qcl_params env s =
     (let s1 = emit (Sdk (SidekickSDK_ReadWriteLaserQclParams (handle s) qcl_read_is_write 0)) s;
          params = sdk_qcl_params env (events s1) (handle s1);
          s2 = emit (Sdk (SidekickSDK_GetLaserQclParams (handle s1))) s1
      in (params, s2))"

definition update_qcl_params :: "qcl_params \<Rightarrow> driver \<Rightarrow> driver" where
  "update_qcl_params params s =
     (let s1 = emit (Sdk (SidekickSDK_SetLaserQclParams (handle s) params)) s
      in emit (Sdk (SidekickSDK_ReadWriteLaserQclParams (handle s1) qcl_update_is_write 0)) s1)"

text \<open>
  Reading an attribute that the object does not have raises \<^verbatim>\<open>AttributeError\<close>.
\<close>

definition getattr :: "string \<Rightarrow> 'a option \<Rightarrow> driver \<Rightarrow> exn \<times> driver + 'a" where
  "getattr name v s = (case v of None \<Rightarrow> Inl (Exn AttributeError [name], s) | Some a \<Rightarrow> Inr a)"

text \<open>
  The condition of the loop of \<^verbatim>\<open>set_qcl_params\<close>: four comparisons joined by
  \<^verbatim>\<open>or\<close>, so an attribute is read only when the comparisons before it are all
  equal. The \<^verbatim>\<open>value\<close> of a \<^verbatim>\<open>c_uint32\<close> or \<^verbatim>\<open>c_uint16\<close> is its unsigned number.
\<close>

definition qcl_params_differ :: "qcl_params \<Rightarrow> driver \<Rightarrow> exn \<times> driver + bool" where
  "qcl_params_differ qp s =
     (if uint (pulse_rate_hz_ptr qp) \<noteq> qcl_pulse_rate_hz s then Inr True
      else case getattr ''qcl_temp_c'' (qcl_temp_c s) s of
        Inl e \<Rightarrow> Inl e
      | Inr temp \<Rightarrow>
          if temp_c_ptr qp \<noteq> temp then Inr True
          else if uint (current_ma_ptr qp) \<noteq> qcl_current_ma s then Inr True
          else case getattr ''qcl_width_ns'' (qcl_width_ns s) s of
            Inl e \<Rightarrow> Inl e
          | Inr width \<Rightarrow> Inr (uint (pulse_width_ns_ptr qp) \<noteq> width))"

text \<open>
  In the loop the timeout branch is the expression statement
  \<^verbatim>\<open>QCL_Exception("Unable to set QCL params")\<close>: the exception is built and dropped.
  \<open>discard\<close> is that statement, and \<open>set_qcl_params_body\<close> is one pass through
  the loop's body. Nothing leaves the loop but its condition, so the loop is a partial
  function: \<open>None\<close> when it runs for ever.
\<close>

definition discard :: "exn \<Rightarrow> driver \<Rightarrow> driver" where
  "discard e s = s"

definition set_qcl_params_body :: "link \<Rightarrow> real \<Rightarrow> driver \<Rightarrow> qcl_params \<times> driver" where
  "set_qcl_params_body env old_t s =
     (let (qp', s1) = read_qcl_params env s;
          curr_t = clock s1;
          s2 = (if curr_t - old_t > real (qcl_set_params_timeout s1)
                then discard (Exn QCL_Exception [''Unable to set QCL params'']) s1
                else s1);
          s3 = sleep 1 s2
      in (qp', s3))"

partial_function (option) set_qcl_params_loop :: "link \<Rightarrow> real \<Rightarrow> qcl_params \<Rightarrow> driver \<Rightarrow> result option" where
  "set_qcl_params_loop env old_t qp s =
     (case qcl_params_differ qp s of
        Inl e \<Rightarrow> Some (Inl e)
      | Inr differ \<Rightarrow>
          if differ
          then set_qcl_params_loop env old_t (fst (set_qcl_params_body env old_t s))
                 (snd (set_qcl_params_body env old_t s))
          else Some (Inr s))"

text \<open>
  \<^verbatim>\<open>c_uint32(n)\<close> and \<^verbatim>\<open>c_uint16(n)\<close> keep the low bits of a Python integer and check
  nothing. \<^verbatim>\<open>c_float\<close> rounds to single precision, which the model leaves out.
\<close>

definition set_qcl_params :: "link \<Rightarrow> driver \<Rightarrow> result option" where
  "set_qcl_params env s =
     (let (qp0, s1) = read_qcl_params env s;
          qp1 = qp0\<lparr>pulse_rate_hz_ptr := word_of_int (qcl_pulse_rate_hz s1)\<rparr>
      in case getattr ''qcl_temp_c'' (qcl_temp_c s1) s1 of
        Inl e \<Rightarrow> Some (Inl e)
      | Inr temp \<Rightarrow>
          (let qp2 = qp1\<lparr>temp_c_ptr := temp\<rparr>;
               qp3 = qp2\<lparr>current_ma_ptr := word_of_int (qcl_current_ma s1)\<rparr>
           in case getattr ''qcl_width_ns'' (qcl_width_ns s1) s1 of
             Inl e \<Rightarrow> Some (Inl e)
           | Inr width \<Rightarrow>
               (let qp4 = qp3\<lparr>pulse_width_ns_ptr := word_of_int width\<rparr>;
                    s2 = update_qcl_params qp4 s1;
                    old_t = clock s2
                in set_qcl_params_loop env old_t qp4 s2)))"

subsection \<open>Turning the laser on\<close>

text \<open>
  The inner loop of \<^verbatim>\<open>turn_on_laser\<close> sleeps \<^verbatim>\<open>laser_on_wait\<close> seconds, reads
  whether the laser fires, and breaks with \<^verbatim>\<open>trial_fail\<close> set when more than
  \<^verbatim>\<open>turn_on_laser_timeout\<close> has passed. It returns the last boolean read, whether it
  broke, and the driver. With \<^verbatim>\<open>laser_on_wait\<close> zero the clock of this model stands
  still, so the loop is a partial function too.
\<close>

definition emission_poll_body :: "link \<Rightarrow> driver \<Rightarrow> bool \<times> driver" where
  "emission_poll_body env s =
     (let s1 = sleep (real (laser_on_wait s)) s
      in read_status env SidekickSDK_isLaserFiring s1)"

partial_function (option) emission_poll :: "link \<Rightarrow> real \<Rightarrow> bool \<Rightarrow> driver \<Rightarrow> (bool \<times> bool \<times> driver) option" where
  "emission_poll env old_t is_emitting s =
     (if \<not> is_emitting then
        if clock (snd (emission_poll_body env s)) - old_t
             > real (turn_on_laser_timeout (snd (emission_poll_body env s)))
        then Some (fst (emission_poll_body env s), True, snd (emission_poll_body env s))
        else emission_poll env old_t (fst (emission_poll_body env s))
               (snd (emission_poll_body env s))
      else Some (is_emitting, False, s))"

text \<open>The start of an attempt: command emission on, read once, write the count.\<close>

definition turn_on_command :: "link \<Rightarrow> nat \<Rightarrow> driver \<Rightarrow> bool \<times> driver" where
  "turn_on_command env attempts s =
     (let turn_on = True;
          s1 = emit (Sdk (SidekickSDK_SetLaserOnOff (handle s) 0 turn_on)) s;
          s2 = emit (Sdk (SidekickSDK_ExecLaserOnOff (handle s1))) s1;
          s3 = emit (Sdk (SidekickSDK_ReadInfoStatusMask (handle s2))) s2;
          (is_emitting, s4) = read_status env SidekickSDK_isLaserFiring s3
      in (is_emitting, emit (Stderr (''Turn on attempts: '' @ dec attempts)) s4))"

text \<open>After the inner loop: read the three diagnostic words and write them.\<close>

definition turn_on_report :: "link \<Rightarrow> driver \<Rightarrow> driver" where
  "turn_on_report env s =
     (let (status_word, error_word, warning_word) = sdk_status_mask env (events s) (handle s);
          s1 = emit (Sdk (SidekickSDK_ReadStatusMask (handle s))) s
      in emit (Stderr (''Status Word is '' @ dec (unat status_word)
                 @ '', Error Word is '' @ dec (unat error_word)
                 @ '', Warning Word is '' @ dec (unat warning_word))) s1)"

text \<open>
  One pass through the body of the outer loop, from the commands to the assignment
  \<^verbatim>\<open>self.laser_on = True\<close>, which a failed trial skips (\<^verbatim>\<open>continue\<close>).
\<close>

definition turn_on_attempt :: "link \<Rightarrow> nat \<Rightarrow> driver \<Rightarrow> (bool \<times> driver) option" where
  "turn_on_attempt env attempts s =
     (let (is_emitting, s1) = turn_on_command env attempts s;
          old_t = clock s1
      in case emission_poll env old_t is_emitting s1 of
        None \<Rightarrow> None
      | Some (is_emitting', trial_fail, s2) \<Rightarrow>
          (let s3 = turn_on_report env s2
           in if trial_fail then Some (is_emitting', s3)
              else Some (is_emitting', s3\<lparr>laser_on := True\<rparr>)))"

partial_function (option) turn_on_loop :: "link \<Rightarrow> nat \<Rightarrow> bool \<Rightarrow> driver \<Rightarrow> (nat \<times> bool \<times> driver) option" where
  "turn_on_loop env attempts is_emitting s =
     (if \<not> laser_on s \<and> attempts < laser_on_attempts s then
        case turn_on_attempt env (attempts + 1) s of
          None \<Rightarrow> None
        | Some r \<Rightarrow> turn_on_loop env (attempts + 1) (fst r) (snd r)
      else Some (attempts, is_emitting, s))"

definition turn_on_laser :: "link \<Rightarrow> driver \<Rightarrow> result option" where
  "turn_on_laser env s =
     (case turn_on_loop env 0 False s of
        None \<Rightarrow> None
      | Some (attempts, is_emitting, s1) \<Rightarrow>
          if \<not> is_emitting then Some (Inl (Exn Laser_Exception [''Laser failed to turn on''], s1))
          else Some (Inr (emit (Stderr ''Laser is on.'') s1)))"

subsection \<open>The lock-in amplifier\<close>

text \<open>
  The calls of the Zurich Instruments library are taken to return; what they return
  comes from the link. \<open>emits\<close> records several calls that follow one another.
\<close>

definition emits :: "event list \<Rightarrow> driver \<Rightarrow> driver" where
  "emits es s = s\<lparr>events := events s @ es\<rparr>"

definition connect_to_lockin :: "link \<Rightarrow> driver \<Rightarrow> result" where
  "connect_to_lockin env s =
     (let s1 = (emit (Zi (ziDAQServer (lockin_ip s) (lockin_port s))) s)\<lparr>daq := True\<rparr>;
          dev = zi_autoDetect env (events s1);
          s2 = (emit (Zi autoDetect) s1)\<lparr>device := Some dev\<rparr>
      in Inr (emit (Stderr (''Connected to lock-In device '' @ dev)) s2))"

text \<open>
  \<^verbatim>\<open>initialize_lockin\<close>. \<^verbatim>\<open>self.daq.getByte\<close> on \<^verbatim>\<open>None\<close> raises
  \<^verbatim>\<open>AttributeError\<close>, \<^verbatim>\<open>'/' + None\<close> raises \<^verbatim>\<open>TypeError\<close>, and \<^verbatim>\<open>time.sleep\<close> of a
  negative number raises \<^verbatim>\<open>ValueError\<close>. The family-specific settings are an
  \<^verbatim>\<open>if\<close>/\<^verbatim>\<open>elif\<close>/\<^verbatim>\<open>elif\<close> chain with no \<^verbatim>\<open>else\<close>.
\<close>

definition family_settings :: "string \<Rightarrow> string \<Rightarrow> event list" where
  "family_settings dev devtype =
     (if py_substring ''UHF'' devtype then
        [Zi (setInt (''/'' @ dev @ ''/demods/*/enable'') 0),
         Zi (setInt (''/'' @ dev @ ''/scopes/*/enable'') 0)]
      else if py_substring ''HF2'' devtype then
        [Zi (setInt (''/'' @ dev @ ''/scopes/*/trigchannel'') (- 1))]
      else if py_substring ''MF'' devtype then
        [Zi (setInt (''/'' @ dev @ ''/scopes/*/enable'') 0)]
      else [])"

text \<open>The other blocks of settings, in the order of the source.\<close>

definition quiesce_settings :: "string \<Rightarrow> event list" where
  "quiesce_settings dev =
     [Zi (setDouble (''/'' @ dev @ ''/demods/*/rate'') 0),
      Zi (setInt (''/'' @ dev @ ''/demods/*/trigger'') 0),
      Zi (setInt (''/'' @ dev @ ''/sigouts/*/enables/*'') 0)]"

definition input_settings :: "string \<Rightarrow> driver \<Rightarrow> event list" where
  "input_settings dev s =
     [Zi (setInt (''/'' @ dev @ ''/sigins/'' @ dec (lockin_in_c s) @ ''/imp50'') 0),
      Zi (setInt (''/'' @ dev @ ''/sigins/'' @ dec (lockin_in_c s) @ ''/ac'') 1),
      Zi (setInt (''/'' @ dev @ ''/sigins/'' @ dec (lockin_in_c s) @ ''/diff'') 0),
      Zi (setInt (''/'' @ dev @ ''/sigins/'' @ dec (lockin_in_c s) @ ''/float'') 0),
      Zi (setDouble (''/'' @ dev @ ''/sigins/'' @ dec (lockin_in_c s) @ ''/range'') 2)]"

definition demod_settings :: "string \<Rightarrow> string \<Rightarrow> string \<Rightarrow> driver \<Rightarrow> event list" where
  "demod_settings dev devtype options s =
     [Zi (setDouble (''/'' @ dev @ ''/demods/*/phaseshift'') 0),
      Zi (setInt (''/'' @ dev @ ''/demods/*/order'') 4),
      Zi (setDouble (''/'' @ dev @ ''/demods/'' @ dec (lockin_demod_c s) @ ''/rate'')
            (demod_rate s)),
      Zi (setInt (''/'' @ dev @ ''/demods/'' @ dec (lockin_demod_c s) @ ''/harmonic'') 1)]
     @ (if py_substring ''UHF'' devtype
        then [Zi (setInt (''/'' @ dev @ ''/demods/'' @ dec (lockin_demod_c s) @ ''/enable'') 1)]
        else [])
     @ (if py_substring ''MF'' options
        then [Zi (setInt (''/'' @ dev @ ''/demods/*/oscselect'') (real (lockin_osc_c s))),
              Zi (setInt (''/'' @ dev @ ''/demods/*/adcselect'') (real (lockin_in_c s)))]
        else [])
     @ [Zi (setDouble (''/'' @ dev @ ''/demods/*/timeconstant'') (lockin_time_constant s)),
        Zi (setDouble (''/'' @ dev @ ''/oscs/'' @ dec (lockin_osc_c s) @ ''/freq'')
              (lockin_osc_freq s))]"

definition reference_settings :: "string \<Rightarrow> event list" where
  "reference_settings dev =
     [Zi (setInt (''/'' @ dev @ ''/extrefs/0/enable'') 1),
      Zi (setDouble (''/'' @ dev @ ''/triggers/in/0/level'') (1 / 2)),
      Zi (setInt (''/'' @ dev @ ''/demods/0/adcselect'') 1),
      Zi (setInt (''/'' @ dev @ ''/demods/0/adcselect'') 0),
      Zi (setInt (''/'' @ dev @ ''/demods/1/adcselect'') 2),
      Zi (setInt (''/'' @ dev @ ''/demods/1/adcselect'') 8)]"

definition initialize_lockin :: "link \<Rightarrow> driver \<Rightarrow> result" where
  "initialize_lockin env s =
     (let s1 = emit (Stderr ''Initializing lock-in amp'') s in
      if \<not> daq s1 then Inl (Exn AttributeError [''getByte''], s1)
      else case device s1 of
        None \<Rightarrow> Inl (Exn TypeError [''device''], s1)
      | Some dev \<Rightarrow>
         (let devtype = zi_getByte env (events s1) (''/'' @ dev @ ''/features/devtype'');
              s2 = emit (Zi (getByte (''/'' @ dev @ ''/features/devtype''))) s1;
              options = zi_getByte env (events s2) (''/'' @ dev @ ''/features/options'');
              s3 = emit (Zi (getByte (''/'' @ dev @ ''/features/options''))) s2;
              s4 = emits (quiesce_settings dev) s3;
              s5 = emits (family_settings dev devtype) s4;
              s6 = emits (input_settings dev s5) s5;
              s7 = emits (demod_settings dev devtype options s6) s6;
              s8 = emits (reference_settings dev) s7;
              s9 = emits [Zi (unsubscribe ''*''), Zi sync] s8
          in if 10 * lockin_time_constant s9 < 0
             then Inl (Exn ValueError [''sleep length must be non-negative''], s9)
             else Inr (sleep (10 * lockin_time_constant s9) s9)))"

text \<open>
  \<^verbatim>\<open>_collect_data\<close>. The two lists are the caller's; the method appends to both or,
  when it raises, to none. \<open>data\<close> and \<open>time_axis\<close> are local variables: \<open>None\<close>
  while nothing has been assigned to them. The \<^verbatim>\<open>else\<close> that assigns the empty lists
  belongs to the outermost \<^verbatim>\<open>if\<close>. A subscript with a missing key raises
  \<^verbatim>\<open>KeyError\<close>; reading a local variable that was never assigned raises
  \<^verbatim>\<open>UnboundLocalError\<close>.
\<close>

type_synonym buffers = "real list list \<times> real list list"

definition collect_data ::
  "link \<Rightarrow> real list list \<Rightarrow> real list list \<Rightarrow> driver \<Rightarrow> exn \<times> driver + driver \<times> buffers" where
  "collect_data env data_list time_list s =
     (if \<not> daq s then Inl (Exn AttributeError [''sync''], s)
      else let s1 = emit (Zi sync) s in
      case device s1 of
        None \<Rightarrow> Inl (Exn TypeError [''device''], s1)
      | Some dev \<Rightarrow>
         (let s2 = emit (Zi (subscribe (''/'' @ dev @ ''/demods/'' @ dec (lockin_demod_c s1)
                                          @ ''/sample''))) s1;
              poll_data = zi_poll env (events s2);
              s3 = emit (Zi (poll (lockin_poll_length s2) (poll_timeout s2))) s2;
              finish = (\<lambda>vars s4.
                 let s5 = emit (Zi (unsubscribe ''*'')) s4
                 in case vars of
                      None \<Rightarrow> Inl (Exn UnboundLocalError [''data''], s5)
                    | Some (data, time_axis) \<Rightarrow>
                        Inr (s5, data_list @ [data], time_list @ [time_axis]))
          in case map_of poll_data dev of
               None \<Rightarrow> finish (Some ([], [])) s3
             | Some device_dict \<Rightarrow>
               (case map_of device_dict ''demods'' of
                  None \<Rightarrow> finish (Some ([], [])) s3
                | Some demods \<Rightarrow>
                    if py_len demods \<ge> lockin_demod_c s3 then
                      case map_of demods (lockin_demod_c s3) of
                        None \<Rightarrow> Inl (Exn KeyError [dec (lockin_demod_c s3)], s3)
                      | Some channel \<Rightarrow>
                         (case map_of channel ''sample'' of
                            None \<Rightarrow> finish None s3
                          | Some smp \<Rightarrow>
                             (let data = map (\<lambda>(a, b). sqrt (a\<^sup>2 + b\<^sup>2))
                                           (zip (sample_x smp) (sample_y smp));
                                  clockbase = real_of_int
                                     (zi_getInt env (events s3) (''/'' @ dev @ ''/clockbase''));
                                  s4 = emit (Zi (getInt (''/'' @ dev @ ''/clockbase''))) s3;
                                  time_axis = map (\<lambda>ts. ts / clockbase) (sample_timestamp smp);
                                  s5 = (if sample_dataloss smp
                                        then emit (Stderr ''warning: Sample loss detected.'') s4
                                        else s4)
                              in finish (Some (data, time_axis)) s5))
                    else finish None s3)))"

subsection \<open>The start-up sequence\<close>

text \<open>
  A method without arguments, as \<^verbatim>\<open>startup\<close> calls it: it may raise, and it may run for
  ever (\<open>None\<close>). \<open>Laser_Driver_methods\<close> is the class's dictionary for these
  methods, under the names of their \<^verbatim>\<open>def\<close> lines.
\<close>

type_synonym bound_method = "link \<Rightarrow> driver \<Rightarrow> result option"

definition Laser_Driver_methods :: "string \<Rightarrow> bound_method option" where
  "Laser_Driver_methods =
     map_of
       [(''connect_laser'', \<lambda>env s. Some (connect_laser env s)),
        (''arm_laser'', \<lambda>env s. Some (arm_laser env s)),
        (''set_qcl_params'', set_qcl_params),
        (''cool_tecs'', \<lambda>env s. Some (cool_tecs env s)),
        (''turn_on_laser'', turn_on_laser),
        (''connect_to_lockin'', \<lambda>env s. Some (connect_to_lockin env s)),
        (''initialize_lockin'', \<lambda>env s. Some (initialize_lockin env s)),
        (''turn_off_laser'', \<lambda>env s. Some (Inr (turn_off_laser s)))]"

text \<open>
  Inside a class body Python rewrites an identifier that starts with two underscores
  and does not end with two: \<^verbatim>\<open>self.__connect_laser\<close> in class \<^verbatim>\<open>Laser_Driver\<close>
  reads the attribute \<^verbatim>\<open>_Laser_Driver__connect_laser\<close>.
\<close>

definition mangle :: "string \<Rightarrow> string" where
  "mangle name =
     (if take 2 name = ''__'' \<and> drop (length name - 2) name \<noteq> ''__''
      then ''_Laser_Driver'' @ name else name)"

text \<open>Calling \<^verbatim>\<open>self.name()\<close>: a name that is not found raises \<^verbatim>\<open>AttributeError\<close>.\<close>

definition call_method :: "(string \<Rightarrow> bound_method option) \<Rightarrow> link \<Rightarrow> string \<Rightarrow> driver \<Rightarrow> result option" where
  "call_method methods env name s =
     (case methods (mangle name) of
        None \<Rightarrow> Some (Inl (Exn AttributeError [mangle name], s))
      | Some m \<Rightarrow> m env s)"

text \<open>The seven calls of the \<^verbatim>\<open>try\<close> block, as they are written.\<close>

definition startup_calls :: "string list" where
  "startup_calls =
     [''__connect_laser'', ''__arm_laser'', ''__set_qcl_params'', ''__cool_tecs'',
      ''__turn_on_laser'', ''__connect_to_lockin'', ''__initialize_lockin'']"

text \<open>Statements in sequence: the first that raises ends the block.\<close>

fun run_calls :: "(string \<Rightarrow> bound_method option) \<Rightarrow> link \<Rightarrow> string list \<Rightarrow> driver \<Rightarrow> result option" where
  "run_calls methods env [] s = Some (Inr s)"
| "run_calls methods env (name # names) s =
     (case call_method methods env name s of
        None \<Rightarrow> None
      | Some (Inl e) \<Rightarrow> Some (Inl e)
      | Some (Inr s1) \<Rightarrow> run_calls methods env names s1)"

text \<open>The five assignments that open \<^verbatim>\<open>startup\<close>, and its \<^verbatim>\<open>try\<close> block.\<close>

definition startup_assign :: "real \<Rightarrow> int \<Rightarrow> int \<Rightarrow> int \<Rightarrow> int \<Rightarrow> driver \<Rightarrow> driver" where
  "startup_assign wave waveunit current pulsewid pulserate s =
     s\<lparr>qcl_wavelength := wave,
       qcl_wvlen_units := waveunit,
       qcl_current_ma_ma := Some current,
       qcl_pulse_width_ns := pulsewid,
       qcl_pulse_rate_hz := pulserate\<rparr>"

definition startup_try :: "(string \<Rightarrow> bound_method option) \<Rightarrow> link \<Rightarrow> driver \<Rightarrow> result option" where
  "startup_try methods env s = run_calls methods env startup_calls s"

text \<open>
  \<^verbatim>\<open>startup\<close>, for any dictionary of methods. The handler takes
  \<^verbatim>\<open>sys.exc_info()[0]\<close>, the class of the exception, calls \<^verbatim>\<open>turn_off_laser\<close> and
  raises the class.
\<close>

definition startup_with ::
  "(string \<Rightarrow> bound_method option) \<Rightarrow> link \<Rightarrow> real \<Rightarrow> int \<Rightarrow> int \<Rightarrow> int \<Rightarrow> int \<Rightarrow> driver \<Rightarrow> result option" where
  "startup_with methods env wave waveunit current pulsewid pulserate s =
     (let s0 = startup_assign wave waveunit current pulsewid pulserate s
      in case startup_try methods env s0 of
           None \<Rightarrow> None
         | Some (Inr s1) \<Rightarrow> Some (Inr s1)
         | Some (Inl (exc, s1)) \<Rightarrow>
             (let e = cls exc;
                  s2 = turn_off_laser s1
              in Some (Inl (Exn e [], s2))))"

definition startup :: "link \<Rightarrow> real \<Rightarrow> int \<Rightarrow> int \<Rightarrow> int \<Rightarrow> int \<Rightarrow> driver \<Rightarrow> result option" where
  "startup = startup_with Laser_Driver_methods"

section \<open>Vocabulary of the properties\<close>

text \<open>The exception of a result, when it has one.\<close>

fun raised :: "exn \<times> 'a + 'b \<Rightarrow> exn option" where
  "raised (Inl (e, s)) = Some e"
| "raised (Inr r) = None"

text \<open>
  The handle that an event passes to the SDK, and whether a list of events passes a
  handle to the SDK after it has passed it to \<^verbatim>\<open>SidekickSDK_Disconnect\<close>.
\<close>

fun sdk_handle_of :: "sdk_call \<Rightarrow> handle" where
  "sdk_handle_of (SidekickSDK_ReadAdminQclParams h n) = h"
| "sdk_handle_of (SidekickSDK_SetLaserArmDisarm h b) = h"
| "sdk_handle_of (SidekickSDK_ExecLaserArmDisarm h) = h"
| "sdk_handle_of (SidekickSDK_ReadInfoStatusMask h) = h"
| "sdk_handle_of (SidekickSDK_ReadWriteLaserQclParams h b n) = h"
| "sdk_handle_of (SidekickSDK_GetLaserQclParams h) = h"
| "sdk_handle_of (SidekickSDK_SetLaserQclParams h p) = h"
| "sdk_handle_of (SidekickSDK_SetTuneToWW h u v w) = h"
| "sdk_handle_of (SidekickSDK_ExecTuneToWW h) = h"
| "sdk_handle_of (SidekickSDK_SetLaserOnOff h n b) = h"
| "sdk_handle_of (SidekickSDK_ExecLaserOnOff h) = h"
| "sdk_handle_of (SidekickSDK_ReadStatusMask h) = h"
| "sdk_handle_of (SidekickSDK_Disconnect h) = h"

fun passes_handle :: "handle \<Rightarrow> event \<Rightarrow> bool" where
  "passes_handle h (Sdk c) = (sdk_handle_of c = h)"
| "passes_handle h (Status f h' b) = (h' = h)"
| "passes_handle h e = False"

fun used_after_release :: "event list \<Rightarrow> bool" where
  "used_after_release [] = False"
| "used_after_release (Sdk (SidekickSDK_Disconnect h) # es) =
     (list_ex (passes_handle h) es \<or> used_after_release es)"
| "used_after_release (e # es) = used_after_release es"

text \<open>
  The two halves of \<^verbatim>\<open>connect_laser\<close>: opening the device, and the three
  verification reads.
\<close>

definition open_device :: "link \<Rightarrow> driver \<Rightarrow> result" where
  "open_device env s =
     and_then (call_sdk_bool env SidekickSDK_SearchForUsbDevices
                 ''Found USB devices'' ''Error occured while searching for USB devices'' s)
     (\<lambda>s1.
     let num_devices = sdk_num_devices env (events s1) in
     and_then (call_sdk_bool env SidekickSDK_GetNumOfDevices
                 ''Got device count'' ''Error when getting device count'' s1)
     (\<lambda>s2.
     let new_handle = sdk_new_handle env (events s2) in
     and_then (call_sdk_bool env (SidekickSDK_ConnectToDeviceNumber (num_devices - 1))
                 ''Connected to laser'' ''Unable to connect to laser'' s2)
     (\<lambda>s3.
     let s4 = s3\<lparr>handle := Some new_handle\<rparr>
     in Inr (emit (Sdk (SidekickSDK_ReadAdminQclParams (handle s4) 0)) s4))))"

definition verify_reads :: "link \<Rightarrow> driver \<Rightarrow> result" where
  "verify_reads env s5 =
     and_then (call_sdk_bool_ptr env SidekickSDK_AdminQclIsAvailable
                 ''QCL installed and detected'' ''QCL not detected'' s5)
     (\<lambda>s6.
     and_then (call_sdk_bool_ptr env SidekickSDK_isInterlockedStatusSet
                 ''Interlock set'' ''Interlock not set'' s6)
     (\<lambda>s7.
     call_sdk_bool_ptr env SidekickSDK_isKeySwitchStatusSet
       ''Keyswitch set'' ''Keyswitch not set'' s7))"

text \<open>
  A class dictionary in which every method is found under its private name as well:
  what the calls of \<^verbatim>\<open>startup\<close> would need.
\<close>

definition with_private_names :: "(string \<Rightarrow> bound_method option) \<Rightarrow> string \<Rightarrow> bound_method option" where
  "with_private_names methods name =
     (if take 15 name = ''_Laser_Driver__'' then methods (drop 15 name) else methods name)"

subsection \<open>Vocabulary for turning the laser on\<close>

text \<open>
  An attempt is counted by its command \<^verbatim>\<open>SidekickSDK_SetLaserOnOff(handle, 0, True)\<close>.
  A link never fires when its answer to \<^verbatim>\<open>SidekickSDK_isLaserFiring\<close> is always false.
\<close>

fun is_on_command :: "event \<Rightarrow> bool" where
  "is_on_command (Sdk (SidekickSDK_SetLaserOnOff h n turn_on)) = turn_on"
| "is_on_command e = False"

definition attempts_made :: "event list \<Rightarrow> nat" where
  "attempts_made evs = length (filter is_on_command evs)"


text \<open>The attributes that \<^verbatim>\<open>turn_on_laser\<close> reads and never assigns.\<close>

definition settings_kept :: "driver \<Rightarrow> driver \<Rightarrow> bool" where
  "settings_kept s s' =
     (laser_on_attempts s' = laser_on_attempts s \<and> laser_on_wait s' = laser_on_wait s
      \<and> turn_on_laser_timeout s' = turn_on_laser_timeout s \<and> handle s' = handle s)"

text \<open>
  Emission is confirmed in the events \<open>evs\<close> that follow the history \<open>base\<close> when one of
  them is a read of \<^verbatim>\<open>SidekickSDK_isLaserFiring\<close> to which the link, asked after
  \<open>base\<close> and the events before the read, answered true.
\<close>

definition confirmed :: "link \<Rightarrow> event list \<Rightarrow> handle \<Rightarrow> event list \<Rightarrow> bool" where
  "confirmed env base h evs =
     (\<exists>i<length evs. evs ! i = Status SidekickSDK_isLaserFiring h True
        \<and> sdk_status env (base @ take i evs) SidekickSDK_isLaserFiring h)"

text \<open>
  What holds when the inner loop, one attempt and the outer loop return: the settings
  are kept, the clock has advanced by no more than the timeout and one wait for each
  attempt, and by no more than the timeout when the attempt did not fail, the new
  events hold one command for each attempt, the boolean read last is true only after
  a confirmation, and \<^verbatim>\<open>laser_on\<close> is set only when that boolean is true.
\<close>

definition poll_post :: "link \<Rightarrow> real \<Rightarrow> bool \<Rightarrow> driver \<Rightarrow> bool \<times> bool \<times> driver \<Rightarrow> bool" where
  "poll_post env old_t e s y =
     (case y of (e', trial_fail, s') \<Rightarrow>
        settings_kept s s' \<and> laser_on s' = laser_on s \<and> clock s \<le> clock s'
        \<and> (clock s - old_t \<le> real (turn_on_laser_timeout s) \<longrightarrow>
             clock s' - old_t \<le> real (turn_on_laser_timeout s) + real (laser_on_wait s))
        \<and> (clock s - old_t \<le> real (turn_on_laser_timeout s) \<and> \<not> trial_fail \<longrightarrow>
             clock s' - old_t \<le> real (turn_on_laser_timeout s))
        \<and> (\<not> trial_fail \<longrightarrow> e')
        \<and> (\<exists>evs. events s' = events s @ evs \<and> attempts_made evs = 0
             \<and> (e' \<longrightarrow> e \<or> confirmed env (events s) (handle s) evs)))"

definition attempt_post :: "link \<Rightarrow> driver \<Rightarrow> bool \<times> driver \<Rightarrow> bool" where
  "attempt_post env s y =
     (case y of (e', s') \<Rightarrow>
        settings_kept s s' \<and> clock s \<le> clock s'
        \<and> clock s' - clock s \<le> real (turn_on_laser_timeout s) + real (laser_on_wait s)
        \<and> (laser_on s' \<longrightarrow> laser_on s \<or> e')
        \<and> (laser_on s' \<and> \<not> laser_on s \<longrightarrow>
             clock s' - clock s \<le> real (turn_on_laser_timeout s))
        \<and> (\<exists>evs. events s' = events s @ evs \<and> attempts_made evs = 1
             \<and> (e' \<longrightarrow> confirmed env (events s) (handle s) evs)))"

definition loop_post :: "link \<Rightarrow> nat \<Rightarrow> bool \<Rightarrow> driver \<Rightarrow> nat \<times> bool \<times> driver \<Rightarrow> bool" where
  "loop_post env n e s y =
     (case y of (n', e', s') \<Rightarrow>
        settings_kept s s' \<and> n \<le> n'
        \<and> (n \<le> laser_on_attempts s \<longrightarrow> n' \<le> laser_on_attempts s)
        \<and> (n \<le> laser_on_attempts s \<and> \<not> laser_on s' \<longrightarrow> n' = laser_on_attempts s)
        \<and> (laser_on s \<longrightarrow> n' = n \<and> e' = e)
        \<and> (laser_on s' \<longrightarrow> laser_on s \<or> e')
        \<and> clock s' - clock s
             \<le> real (n' - n) * (real (turn_on_laser_timeout s) + real (laser_on_wait s))
        \<and> (\<exists>evs. events s' = events s @ evs \<and> attempts_made evs = n' - n
             \<and> (e' \<longrightarrow> e \<or> confirmed env (events s) (handle s) evs)))"

subsection \<open>Links and drivers of the examples\<close>

text \<open>
  \<open>quiet_link\<close> finds one device and opens it as handle 7, answers every status
  read with false, and reports a lock-in of an unknown family that has no data.
  \<open>interlock_open_link\<close> reports the QCL but neither interlock nor key switch,
  \<open>key_off_link\<close> answers every status read with true but the key switch.
  \<open>never_armed_link\<close> answers every status read with true but the armed one,
  \<open>firing_link\<close> answers every status read with true.
  \<open>no_sample_link\<close> has a poll answer with the device, its \<^verbatim>\<open>demods\<close> branch and
  channel 0, without a \<^verbatim>\<open>sample\<close> node.
\<close>

definition quiet_link :: link where
  "quiet_link = \<lparr>
     sdk_return = (\<lambda>evs f. 0),
     sdk_num_devices = (\<lambda>evs. 1),
     sdk_new_handle = (\<lambda>evs. 7),
     sdk_status = (\<lambda>evs f h. False),
     sdk_qcl_params = (\<lambda>evs h. \<lparr>qcl_slot_ptr = 0, pulse_rate_hz_ptr = 0, pulse_width_ns_ptr = 0,
        current_ma_ptr = 0, temp_c_ptr = 0, laser_mode_ptr = 0, pulse_mode_ptr = 0, vsrc_ptr = 0\<rparr>),
     sdk_status_mask = (\<lambda>evs h. (0, 0, 0)),
     zi_autoDetect = (\<lambda>evs. ''dev1''),
     zi_getByte = (\<lambda>evs path. ''XYZ''),
     zi_getInt = (\<lambda>evs path. 1),
     zi_poll = (\<lambda>evs. []) \<rparr>"

definition never_armed_link :: link where
  "never_armed_link = quiet_link\<lparr>sdk_status := (\<lambda>evs f h. f \<noteq> SidekickSDK_isLaserArmed)\<rparr>"

definition firing_link :: link where
  "firing_link = quiet_link\<lparr>sdk_status := (\<lambda>evs f h. True)\<rparr>"

definition interlock_open_link :: link where
  "interlock_open_link =
     quiet_link\<lparr>sdk_status := (\<lambda>evs f h. f = SidekickSDK_AdminQclIsAvailable)\<rparr>"

definition key_off_link :: link where
  "key_off_link =
     quiet_link\<lparr>sdk_status := (\<lambda>evs f h. f \<noteq> SidekickSDK_isKeySwitchStatusSet)\<rparr>"

definition no_sample_link :: link where
  "no_sample_link = quiet_link\<lparr>zi_poll := (\<lambda>evs. [(''dev1'', [(''demods'', [(0, [])])])])\<rparr>"

definition lockin_driver :: driver where
  "lockin_driver = attributes\<lparr>daq := True, device := Some ''dev1''\<rparr>"

definition impatient_driver :: driver where
  "impatient_driver = attributes\<lparr>arm_laser_timeout := 1\<rparr>"

text \<open>
  \<open>supplied_driver\<close> has the two attributes that \<^verbatim>\<open>set_qcl_params\<close> reads and
  \<^verbatim>\<open>__init__\<close> does not create; \<open>overflowing_driver\<close> has, besides, a pulse rate
  that does not fit a \<^verbatim>\<open>c_uint32\<close>.
\<close>

definition supplied_driver :: driver where
  "supplied_driver = attributes\<lparr>qcl_temp_c := Some 17, qcl_width_ns := Some 500\<rparr>"

definition overflowing_driver :: driver where
  "overflowing_driver = supplied_driver\<lparr>qcl_pulse_rate_hz := 4294967296\<rparr>"

definition example_started :: driver where
  "example_started = startup_assign 0 2 1500 500 100000 impatient_driver"

definition example_connected :: driver where
  "example_connected = state_of (connect_laser never_armed_link example_started)"

definition example_arm_failed :: driver where
  "example_arm_failed = state_of (arm_laser never_armed_link example_connected)"

section \<open>Properties\<close>

subsection \<open>What the small steps do to the driver\<close>

lemma events_emit [simp]: "events (emit e s) = events s @ [e]"
  by (simp add: emit_def)

lemma handle_emit [simp]: "handle (emit e s) = handle s"
  by (simp add: emit_def)

lemma turn_off_laser_events:
  "events (turn_off_laser s) = events s @ turn_off_calls (handle s) @ [Stderr ''Laser off'']"
  by (simp add: turn_off_laser_def turn_off_calls_def)

lemma turn_off_laser_handle [simp]: "handle (turn_off_laser s) = handle s"
  by (simp add: turn_off_laser_def)

subsection \<open>The start-up sequence never reaches a stage\<close>

text \<open>
  Claim C2 says that every invocation of \<^verbatim>\<open>startup\<close> executes the seven stages in
  order and skips none. The code does not: the first call, \<^verbatim>\<open>self.__connect_laser()\<close>,
  looks for \<^verbatim>\<open>_Laser_Driver__connect_laser\<close>, and the class defines
  \<^verbatim>\<open>connect_laser\<close>. For every link, every argument and every driver, \<^verbatim>\<open>startup\<close>
  assigns its five attributes, raises \<^verbatim>\<open>AttributeError\<close> inside the \<^verbatim>\<open>try\<close> block,
  turns the laser off and raises the class \<^verbatim>\<open>AttributeError\<close>; no stage has run.
\<close>

theorem startup_runs_no_stage:
  "startup env wave waveunit current pulsewid pulserate s =
     Some (Inl (Exn AttributeError [],
       turn_off_laser (startup_assign wave waveunit current pulsewid pulserate s)))"
  by (simp add: startup_def startup_with_def startup_try_def startup_calls_def call_method_def
      Laser_Driver_methods_def mangle_def)

subsection \<open>Setting the QCL parameters on a new driver\<close>

text \<open>
  Claim C4 says that \<^verbatim>\<open>set_qcl_params\<close> commands the four fields, polls until the
  read values equal the commanded ones, and succeeds against a link that echoes them.
  On a driver as \<^verbatim>\<open>__init__\<close> leaves it (rate 100000, width 500, current 1500,
  temperature 17) the method reads \<^verbatim>\<open>self.qcl_temp_c\<close>, an attribute the object does
  not have: whatever the link answers, it raises \<^verbatim>\<open>AttributeError\<close> after the first
  read of the parameters, and has commanded nothing.
\<close>

theorem set_qcl_params_attribute_error:
  "set_qcl_params env attributes =
     Some (Inl (Exn AttributeError [''qcl_temp_c''],
       attributes\<lparr>events :=
         [Sdk (SidekickSDK_ReadWriteLaserQclParams None False 0),
          Sdk (SidekickSDK_GetLaserQclParams None)]\<rparr>))"
  by (simp add: set_qcl_params_def read_qcl_params_def getattr_def attributes_def emit_def
      qcl_read_is_write_def Let_def)

subsection \<open>A fault inside the start-up sequence\<close>

lemma run_calls_append:
  "run_calls methods env (xs @ ys) s =
     (case run_calls methods env xs s of
        None \<Rightarrow> None
      | Some (Inl e) \<Rightarrow> Some (Inl e)
      | Some (Inr s1) \<Rightarrow> run_calls methods env ys s1)"
  by (induction xs arbitrary: s) (auto split: option.splits sum.splits)

text \<open>
  Claim C1, as amended. Take any dictionary of methods. When the calls before the
  \<open>k\<close>-th have returned and the \<open>k\<close>-th raises \<open>exc\<close>, leaving the driver as
  \<open>s1\<close>, \<^verbatim>\<open>startup\<close> runs \<^verbatim>\<open>turn_off_laser\<close> once on \<open>s1\<close> (its five SDK calls and
  its message follow the events of \<open>s1\<close>, and nothing follows them) and raises the
  class of \<open>exc\<close>, without arguments. It returns no result.
\<close>

theorem startup_fault:
  assumes "k < length startup_calls"
      and "run_calls methods env (take k startup_calls)
             (startup_assign wave waveunit current pulsewid pulserate s) = Some (Inr sk)"
      and "call_method methods env (startup_calls ! k) sk = Some (Inl (exc, s1))"
  shows "\<exists>s2. startup_with methods env wave waveunit current pulsewid pulserate s
                 = Some (Inl (Exn (cls exc) [], s2))
           \<and> events s2 = events s1 @ turn_off_calls (handle s1) @ [Stderr ''Laser off'']"
proof -
  have split: "startup_calls = take k startup_calls @ (startup_calls ! k) # drop (Suc k) startup_calls"
    using assms(1) by (simp add: id_take_nth_drop)
  have "startup_try methods env (startup_assign wave waveunit current pulsewid pulserate s)
          = Some (Inl (exc, s1))"
    unfolding startup_try_def
    by (subst split) (simp add: run_calls_append assms(2,3))
  then show ?thesis
    by (simp add: startup_with_def turn_off_laser_events)
qed

lemma connect_never_armed:
  "connect_laser never_armed_link s =
     Inr ((emits [Checked SidekickSDK_SearchForUsbDevices 0, Stderr ''Found USB devices'',
                 Checked SidekickSDK_GetNumOfDevices 0, Stderr ''Got device count'',
                 Checked (SidekickSDK_ConnectToDeviceNumber 0) 0, Stderr ''Connected to laser'',
                 Sdk (SidekickSDK_ReadAdminQclParams (Some 7) 0),
                 Status SidekickSDK_AdminQclIsAvailable (Some 7) True, Stderr ''QCL installed and detected'',
                 Status SidekickSDK_isInterlockedStatusSet (Some 7) True, Stderr ''Interlock set'',
                 Status SidekickSDK_isKeySwitchStatusSet (Some 7) True, Stderr ''Keyswitch set''] s)
          \<lparr>handle := Some 7\<rparr>)"
  by (simp add: connect_laser_def and_then_def call_sdk_bool_def call_sdk_bool_ptr_def
      read_status_def never_armed_link_def quiet_link_def Let_def sidekick_sdk_ret_success_def
      emit_def emits_def)

lemma arm_never_armed:
  "arm_laser_timeout s = 1 \<Longrightarrow>
   arm_laser never_armed_link s =
     Inl (Exn Laser_Exception [''Unable to arm laser''],
       (emits [Sdk (SidekickSDK_SetLaserArmDisarm (handle s) True),
               Sdk (SidekickSDK_ExecLaserArmDisarm (handle s)),
               Sdk (SidekickSDK_ReadInfoStatusMask (handle s)),
               Status SidekickSDK_isLaserArmed (handle s) False,
               Sdk (SidekickSDK_ReadInfoStatusMask (handle s)),
               Status SidekickSDK_isLaserArmed (handle s) False,
               Sdk (SidekickSDK_ReadInfoStatusMask (handle s)),
               Status SidekickSDK_isLaserArmed (handle s) False] s)\<lparr>clock := clock s + 2\<rparr>)"
  by (simp add: arm_laser_def arm_laser_loop.simps and_then_def read_status_def
      never_armed_link_def quiet_link_def Let_def emit_def emits_def sleep_def)

text \<open>
  The theorem at work: with the private names in the dictionary, a link that never
  reports the laser armed and an arm timeout of one second, the first stage returns,
  the second raises \<^verbatim>\<open>Laser_Exception('Unable to arm laser')\<close>, and \<^verbatim>\<open>startup\<close> raises
  \<^verbatim>\<open>Laser_Exception\<close> without the message after turning the laser off.
\<close>

theorem startup_fault_witness:
  "1 < length startup_calls
   \<and> run_calls (with_private_names Laser_Driver_methods) never_armed_link
        (take 1 startup_calls) (startup_assign 0 2 1500 500 100000 impatient_driver)
       = Some (Inr example_connected)
   \<and> call_method (with_private_names Laser_Driver_methods) never_armed_link
        (startup_calls ! 1) example_connected
       = Some (Inl (Exn Laser_Exception [''Unable to arm laser''], example_arm_failed))
   \<and> (\<exists>s2. startup_with (with_private_names Laser_Driver_methods) never_armed_link
               0 2 1500 500 100000 impatient_driver
              = Some (Inl (Exn Laser_Exception [], s2))
         \<and> events s2 = events example_arm_failed @ turn_off_calls (handle example_arm_failed)
                         @ [Stderr ''Laser off''])"
proof -
  have h1: "1 < length startup_calls"
    by (simp add: startup_calls_def)
  have h2: "run_calls (with_private_names Laser_Driver_methods) never_armed_link
        (take 1 startup_calls) (startup_assign 0 2 1500 500 100000 impatient_driver)
       = Some (Inr example_connected)"
    by (simp add: startup_calls_def call_method_def mangle_def with_private_names_def
        Laser_Driver_methods_def connect_never_armed example_connected_def example_started_def)
  have tmo: "arm_laser_timeout example_connected = 1"
    by (simp add: example_connected_def connect_never_armed emits_def example_started_def
        startup_assign_def impatient_driver_def attributes_def)
  have h3: "call_method (with_private_names Laser_Driver_methods) never_armed_link
        (startup_calls ! 1) example_connected
       = Some (Inl (Exn Laser_Exception [''Unable to arm laser''], example_arm_failed))"
    by (simp add: startup_calls_def call_method_def mangle_def with_private_names_def
        Laser_Driver_methods_def arm_never_armed [OF tmo] example_arm_failed_def)
  from startup_fault [OF h1 h2 h3] have
    "\<exists>s2. startup_with (with_private_names Laser_Driver_methods) never_armed_link
               0 2 1500 500 100000 impatient_driver
              = Some (Inl (Exn Laser_Exception [], s2))
         \<and> events s2 = events example_arm_failed @ turn_off_calls (handle example_arm_failed)
                         @ [Stderr ''Laser off'']"
    by simp
  with h1 h2 h3 show ?thesis by blast
qed

text \<open>
  Claim C1 as it is written says that the original fault is re-raised. On a new
  driver the fault raised inside the \<^verbatim>\<open>try\<close> block is an \<^verbatim>\<open>AttributeError\<close> that
  names the missing attribute; the exception that leaves \<^verbatim>\<open>startup\<close> is a new
  \<^verbatim>\<open>AttributeError\<close> without arguments.
\<close>

theorem startup_raises_class_not_fault:
  "map_option raised
      (startup_try Laser_Driver_methods quiet_link (startup_assign 0 2 1500 500 100000 attributes))
     = Some (Some (Exn AttributeError [''_Laser_Driver__connect_laser'']))
   \<and> map_option raised (startup quiet_link 0 2 1500 500 100000 attributes)
     = Some (Some (Exn AttributeError []))"
  by (simp add: startup_def startup_with_def startup_try_def startup_calls_def call_method_def
      Laser_Driver_methods_def mangle_def)

subsection \<open>A failed verification read disconnects\<close>

lemma connect_laser_split:
  "connect_laser env s = and_then (open_device env s) (verify_reads env)"
  by (simp add: connect_laser_def open_device_def verify_reads_def and_then_def Let_def
      split: sum.splits)

lemma open_device_result:
  "\<exists>evs. events (state_of (open_device env s)) = events s @ evs
      \<and> (\<forall>q h b. Status q h b \<notin> set evs)
      \<and> (\<forall>s5. open_device env s = Inr s5 \<longrightarrow> handle s5 \<noteq> None)"
  by (auto simp: open_device_def and_then_def call_sdk_bool_def Let_def split: if_splits)

lemma open_device_opens:
  assumes "\<forall>evs f. sdk_return env evs f = sidekick_sdk_ret_success"
  shows "\<exists>s5. open_device env s = Inr s5
           \<and> handle s5 = Some (sdk_new_handle env
                (events s @ [Checked SidekickSDK_SearchForUsbDevices 0, Stderr ''Found USB devices'',
                             Checked SidekickSDK_GetNumOfDevices 0, Stderr ''Got device count'']))"
  using assms
  by (simp add: open_device_def and_then_def call_sdk_bool_def Let_def sidekick_sdk_ret_success_def)

text \<open>
  Claim C10. Let the device be opened (the three checked calls have returned success),
  leaving the driver as \<open>s5\<close>, and let \<open>a1\<close>, \<open>a2\<close> and \<open>a3\<close> be what the link
  answers to the three verification reads, each asked after the reads before it have
  succeeded. When one of the three answers is false, \<^verbatim>\<open>connect_laser\<close> raises
  \<^verbatim>\<open>SDK_Exception\<close> with the message of the first read that failed, and the events
  after the opening are the reads up to that one followed by
  \<^verbatim>\<open>SidekickSDK_Disconnect\<close> of the handle just opened, and nothing else.
\<close>

theorem connect_laser_failed_read_disconnects:
  assumes "open_device env s = Inr s5"
      and "a1 = sdk_status env (events s5) SidekickSDK_AdminQclIsAvailable (handle s5)"
      and "a2 = sdk_status env
                  (events s5 @ [Status SidekickSDK_AdminQclIsAvailable (handle s5) True,
                                Stderr ''QCL installed and detected''])
                  SidekickSDK_isInterlockedStatusSet (handle s5)"
      and "a3 = sdk_status env
                  (events s5 @ [Status SidekickSDK_AdminQclIsAvailable (handle s5) True,
                                Stderr ''QCL installed and detected'',
                                Status SidekickSDK_isInterlockedStatusSet (handle s5) True,
                                Stderr ''Interlock set''])
                  SidekickSDK_isKeySwitchStatusSet (handle s5)"
      and "\<not> a1 \<or> \<not> a2 \<or> \<not> a3"
  shows "\<exists>s'. connect_laser env s =
                 Inl (Exn SDK_Exception
                        [if \<not> a1 then ''QCL not detected''
                         else if \<not> a2 then ''Interlock not set'' else ''Keyswitch not set''], s')
           \<and> handle s' = handle s5 \<and> handle s5 \<noteq> None
           \<and> events s' = events s5 @
                (if \<not> a1 then [Status SidekickSDK_AdminQclIsAvailable (handle s5) False]
                 else if \<not> a2 then
                   [Status SidekickSDK_AdminQclIsAvailable (handle s5) True,
                    Stderr ''QCL installed and detected'',
                    Status SidekickSDK_isInterlockedStatusSet (handle s5) False]
                 else
                   [Status SidekickSDK_AdminQclIsAvailable (handle s5) True,
                    Stderr ''QCL installed and detected'',
                    Status SidekickSDK_isInterlockedStatusSet (handle s5) True,
                    Stderr ''Interlock set'',
                    Status SidekickSDK_isKeySwitchStatusSet (handle s5) False])
                @ [Sdk (SidekickSDK_Disconnect (handle s5))]"
proof -
  have eq: "connect_laser env s = verify_reads env s5"
    using assms(1) by (simp add: connect_laser_split and_then_def)
  have h: "handle s5 \<noteq> None"
    using open_device_result [of env s] assms(1) by blast
  show ?thesis
  proof (cases a1)
    case False
    with assms(2) h show ?thesis
      unfolding eq
      by (simp add: verify_reads_def and_then_def call_sdk_bool_ptr_def read_status_def Let_def)
  next
    case t1: True
    show ?thesis
    proof (cases a2)
      case False
      with t1 assms(2,3) h show ?thesis
        unfolding eq
        by (simp add: verify_reads_def and_then_def call_sdk_bool_ptr_def read_status_def Let_def)
    next
      case t2: True
      with t1 assms(5) have "\<not> a3" by simp
      with t1 t2 assms(2,3,4) h show ?thesis
        unfolding eq
        by (simp add: verify_reads_def and_then_def call_sdk_bool_ptr_def read_status_def Let_def)
    qed
  qed
qed

lemma open_device_quiet:
  "open_device (quiet_link\<lparr>sdk_status := f\<rparr>) s =
     Inr ((emits [Checked SidekickSDK_SearchForUsbDevices 0, Stderr ''Found USB devices'',
                  Checked SidekickSDK_GetNumOfDevices 0, Stderr ''Got device count'',
                  Checked (SidekickSDK_ConnectToDeviceNumber 0) 0, Stderr ''Connected to laser'',
                  Sdk (SidekickSDK_ReadAdminQclParams (Some 7) 0)] s)\<lparr>handle := Some 7\<rparr>)"
  by (simp add: open_device_def and_then_def call_sdk_bool_def quiet_link_def Let_def
      sidekick_sdk_ret_success_def emit_def emits_def)

text \<open>
  Two links that open the device as handle 7: one answers false to the interlock
  read, the other to the key-switch read. Either way \<^verbatim>\<open>connect_laser\<close> raises with
  the message of that read, and its last call disconnects handle 7.
\<close>

theorem connect_laser_failed_read_disconnects_witness:
  "(\<exists>s5. open_device interlock_open_link attributes = Inr s5 \<and> handle s5 = Some 7
      \<and> sdk_status interlock_open_link (events s5) SidekickSDK_AdminQclIsAvailable (handle s5)
      \<and> \<not> sdk_status interlock_open_link
            (events s5 @ [Status SidekickSDK_AdminQclIsAvailable (handle s5) True,
                          Stderr ''QCL installed and detected''])
            SidekickSDK_isInterlockedStatusSet (handle s5))
   \<and> raised (connect_laser interlock_open_link attributes)
       = Some (Exn SDK_Exception [''Interlock not set''])
   \<and> last (events (state_of (connect_laser interlock_open_link attributes)))
       = Sdk (SidekickSDK_Disconnect (Some 7))
   \<and> (\<exists>s5. open_device key_off_link attributes = Inr s5 \<and> handle s5 = Some 7
      \<and> \<not> sdk_status key_off_link
            (events s5 @ [Status SidekickSDK_AdminQclIsAvailable (handle s5) True,
                          Stderr ''QCL installed and detected'',
                          Status SidekickSDK_isInterlockedStatusSet (handle s5) True,
                          Stderr ''Interlock set''])
            SidekickSDK_isKeySwitchStatusSet (handle s5))
   \<and> raised (connect_laser key_off_link attributes)
       = Some (Exn SDK_Exception [''Keyswitch not set''])
   \<and> last (events (state_of (connect_laser key_off_link attributes)))
       = Sdk (SidekickSDK_Disconnect (Some 7))"
proof -
  obtain s5 where o: "open_device interlock_open_link attributes = Inr s5" "handle s5 = Some 7"
    by (simp add: interlock_open_link_def open_device_quiet)
  have a1: "sdk_status interlock_open_link (events s5) SidekickSDK_AdminQclIsAvailable (handle s5)"
    and a2: "\<not> sdk_status interlock_open_link
            (events s5 @ [Status SidekickSDK_AdminQclIsAvailable (handle s5) True,
                          Stderr ''QCL installed and detected''])
            SidekickSDK_isInterlockedStatusSet (handle s5)"
    by (simp_all add: interlock_open_link_def)
  from a2 have d: "\<not> sdk_status interlock_open_link (events s5) SidekickSDK_AdminQclIsAvailable (handle s5)
      \<or> \<not> sdk_status interlock_open_link
            (events s5 @ [Status SidekickSDK_AdminQclIsAvailable (handle s5) True,
                          Stderr ''QCL installed and detected''])
            SidekickSDK_isInterlockedStatusSet (handle s5)
      \<or> \<not> sdk_status interlock_open_link
            (events s5 @ [Status SidekickSDK_AdminQclIsAvailable (handle s5) True,
                          Stderr ''QCL installed and detected'',
                          Status SidekickSDK_isInterlockedStatusSet (handle s5) True,
                          Stderr ''Interlock set''])
            SidekickSDK_isKeySwitchStatusSet (handle s5)" by simp
  from connect_laser_failed_read_disconnects [OF o(1) refl refl refl d] a1 a2 o(2)
  have r1: "raised (connect_laser interlock_open_link attributes)
       = Some (Exn SDK_Exception [''Interlock not set''])"
    and l1: "last (events (state_of (connect_laser interlock_open_link attributes)))
       = Sdk (SidekickSDK_Disconnect (Some 7))"
    by auto
  obtain t5 where p: "open_device key_off_link attributes = Inr t5" "handle t5 = Some 7"
    by (simp add: key_off_link_def open_device_quiet)
  have b1: "sdk_status key_off_link (events t5) SidekickSDK_AdminQclIsAvailable (handle t5)"
    and b2: "sdk_status key_off_link
            (events t5 @ [Status SidekickSDK_AdminQclIsAvailable (handle t5) True,
                          Stderr ''QCL installed and detected''])
            SidekickSDK_isInterlockedStatusSet (handle t5)"
    and b3: "\<not> sdk_status key_off_link
            (events t5 @ [Status SidekickSDK_AdminQclIsAvailable (handle t5) True,
                          Stderr ''QCL installed and detected'',
                          Status SidekickSDK_isInterlockedStatusSet (handle t5) True,
                          Stderr ''Interlock set''])
            SidekickSDK_isKeySwitchStatusSet (handle t5)"
    by (simp_all add: key_off_link_def)
  from b3 have d2: "\<not> sdk_status key_off_link (events t5) SidekickSDK_AdminQclIsAvailable (handle t5)
      \<or> \<not> sdk_status key_off_link
            (events t5 @ [Status SidekickSDK_AdminQclIsAvailable (handle t5) True,
                          Stderr ''QCL installed and detected''])
            SidekickSDK_isInterlockedStatusSet (handle t5)
      \<or> \<not> sdk_status key_off_link
            (events t5 @ [Status SidekickSDK_AdminQclIsAvailable (handle t5) True,
                          Stderr ''QCL installed and detected'',
                          Status SidekickSDK_isInterlockedStatusSet (handle t5) True,
                          Stderr ''Interlock set''])
            SidekickSDK_isKeySwitchStatusSet (handle t5)" by simp
  from connect_laser_failed_read_disconnects [OF p(1) refl refl refl d2] b1 b2 b3 p(2)
  have r2: "raised (connect_laser key_off_link attributes)
       = Some (Exn SDK_Exception [''Keyswitch not set''])"
    and l2: "last (events (state_of (connect_laser key_off_link attributes)))
       = Sdk (SidekickSDK_Disconnect (Some 7))"
    by auto
  from o a1 a2 r1 l1 p b3 r2 l2 show ?thesis by blast
qed

subsection \<open>Turning the laser off twice\<close>

text \<open>
  Claim C9, as amended. Two calls of \<^verbatim>\<open>turn_off_laser\<close> in succession both return,
  and the second makes the same five SDK calls as the first with the same handle:
  \<^verbatim>\<open>self.handle\<close> is never cleared.
\<close>

theorem turn_off_laser_twice:
  "\<exists>s1 s2. call_method Laser_Driver_methods env ''turn_off_laser'' s = Some (Inr s1)
     \<and> call_method Laser_Driver_methods env ''turn_off_laser'' s1 = Some (Inr s2)
     \<and> events s1 = events s @ turn_off_calls (handle s) @ [Stderr ''Laser off'']
     \<and> events s2 = events s1 @ turn_off_calls (handle s) @ [Stderr ''Laser off'']"
  by (simp add: call_method_def Laser_Driver_methods_def mangle_def turn_off_laser_events)

text \<open>
  Claim C9 as it is written says that the second call does not reuse the released
  handle. With handle 7 the second call passes 7 to the SDK after the first has
  disconnected it.
\<close>

theorem turn_off_laser_twice_reuses_handle:
  "used_after_release
     (events (turn_off_laser (turn_off_laser (attributes\<lparr>handle := Some 7\<rparr>))))"
  by (simp add: turn_off_laser_events turn_off_calls_def attributes_def)

subsection \<open>A poll answer without a sample node\<close>

text \<open>
  Claim C7 says that a poll answer that lacks the sample node makes \<^verbatim>\<open>_collect_data\<close>
  append an empty sequence to both lists without raising. With the device, its
  \<^verbatim>\<open>demods\<close> branch and channel 0 present and no \<^verbatim>\<open>sample\<close> node, the method raises
  \<^verbatim>\<open>UnboundLocalError\<close>: \<^verbatim>\<open>data\<close> was never assigned, and nothing is appended.
\<close>

theorem collect_data_no_sample_raises:
  "raised (collect_data no_sample_link [] [] lockin_driver) = Some (Exn UnboundLocalError [''data''])"
  by (simp add: collect_data_def no_sample_link_def quiet_link_def lockin_driver_def attributes_def
      Let_def emit_def py_len_def)

subsection \<open>A lock-in of an unknown family\<close>

lemma emit_emits: "emit e s = emits [e] s"
  by (simp add: emit_def emits_def)

lemma emits_emits [simp]: "emits es (emits es' s) = emits (es' @ es) s"
  by (simp add: emits_def)

lemma events_emits [simp]: "events (emits es s) = events s @ es"
  by (simp add: emits_def)

lemma emits_fields [simp]:
  "daq (emits es s) = daq s"
  "device (emits es s) = device s"
  "lockin_time_constant (emits es s) = lockin_time_constant s"
  by (simp_all add: emits_def)

lemma emits_settings [simp]:
  "input_settings dev (emits es s) = input_settings dev s"
  "demod_settings dev devtype options (emits es s) = demod_settings dev devtype options s"
  by (simp_all add: emits_def input_settings_def demod_settings_def)

lemma events_sleep [simp]: "events (sleep d s) = events s"
  by (simp add: sleep_def)

text \<open>
  Claim C8, as amended. When the device type that \<^verbatim>\<open>initialize_lockin\<close> reads
  contains none of \<^verbatim>\<open>UHF\<close>, \<^verbatim>\<open>HF2\<close> and \<^verbatim>\<open>MF\<close> (and the server is connected, the
  device known and the time constant not negative), the method raises nothing: the
  settings of the input channel follow the three settings of the quiesce barrier
  directly, the remaining settings follow, and the method returns.
\<close>

theorem initialize_lockin_unknown_family:
  assumes "daq s" and "device s = Some dev"
      and "devtype = zi_getByte env (events s @ [Stderr ''Initializing lock-in amp''])
                       (''/'' @ dev @ ''/features/devtype'')"
      and "options = zi_getByte env (events s @ [Stderr ''Initializing lock-in amp'',
                          Zi (getByte (''/'' @ dev @ ''/features/devtype''))])
                       (''/'' @ dev @ ''/features/options'')"
      and "\<not> py_substring ''UHF'' devtype"
      and "\<not> py_substring ''HF2'' devtype"
      and "\<not> py_substring ''MF'' devtype"
      and "0 \<le> lockin_time_constant s"
  shows "\<exists>s'. initialize_lockin env s = Inr s'
           \<and> events s' = events s @
                [Stderr ''Initializing lock-in amp'',
                 Zi (getByte (''/'' @ dev @ ''/features/devtype'')),
                 Zi (getByte (''/'' @ dev @ ''/features/options''))]
                @ quiesce_settings dev @ input_settings dev s
                @ demod_settings dev devtype options s @ reference_settings dev
                @ [Zi (unsubscribe ''*''), Zi sync]"
  using assms
  by (simp add: initialize_lockin_def Let_def emit_emits family_settings_def)

theorem initialize_lockin_unknown_family_witness:
  "daq lockin_driver \<and> device lockin_driver = Some ''dev1''
   \<and> \<not> py_substring ''UHF'' ''XYZ'' \<and> \<not> py_substring ''HF2'' ''XYZ''
   \<and> \<not> py_substring ''MF'' ''XYZ'' \<and> 0 \<le> lockin_time_constant lockin_driver
   \<and> (\<exists>s'. initialize_lockin quiet_link lockin_driver = Inr s'
           \<and> events s' = events lockin_driver @
                [Stderr ''Initializing lock-in amp'',
                 Zi (getByte (''/'' @ ''dev1'' @ ''/features/devtype'')),
                 Zi (getByte (''/'' @ ''dev1'' @ ''/features/options''))]
                @ quiesce_settings ''dev1'' @ input_settings ''dev1'' lockin_driver
                @ demod_settings ''dev1'' ''XYZ'' ''XYZ'' lockin_driver @ reference_settings ''dev1''
                @ [Zi (unsubscribe ''*''), Zi sync])"
proof -
  have h1: "daq lockin_driver" and h2: "device lockin_driver = Some ''dev1''"
    and h8: "0 \<le> lockin_time_constant lockin_driver"
    by (simp_all add: lockin_driver_def attributes_def)
  have h3: "''XYZ'' = zi_getByte quiet_link (events lockin_driver @ [Stderr ''Initializing lock-in amp''])
                       (''/'' @ ''dev1'' @ ''/features/devtype'')"
    and h4: "''XYZ'' = zi_getByte quiet_link (events lockin_driver @ [Stderr ''Initializing lock-in amp'',
                          Zi (getByte (''/'' @ ''dev1'' @ ''/features/devtype''))])
                       (''/'' @ ''dev1'' @ ''/features/options'')"
    by (simp_all add: quiet_link_def)
  have h5: "\<not> py_substring ''UHF'' ''XYZ''" and h6: "\<not> py_substring ''HF2'' ''XYZ''"
    and h7: "\<not> py_substring ''MF'' ''XYZ''"
    by simp_all
  from initialize_lockin_unknown_family [OF h1 h2 h3 h4 h5 h6 h7 h8] h1 h2 h5 h6 h7 h8
  show ?thesis by blast
qed

text \<open>
  Claim C8 as it is written says that an unknown family makes the method fail with a
  detector fault. With device type \<^verbatim>\<open>XYZ\<close> it raises nothing.
\<close>

theorem initialize_lockin_unknown_family_returns:
  "raised (initialize_lockin quiet_link lockin_driver) = None"
  by (simp add: initialize_lockin_def quiet_link_def lockin_driver_def attributes_def
      Let_def emit_def emits_def family_settings_def sleep_def)

subsection \<open>The time-out of the QCL parameters\<close>

lemma set_qcl_params_body_rate [simp]:
  "qcl_pulse_rate_hz (snd (set_qcl_params_body env old_t s)) = qcl_pulse_rate_hz s"
  by (simp add: set_qcl_params_body_def read_qcl_params_def discard_def sleep_def emit_def
      Let_def split_def)

lemma rate_out_of_range_differs:
  assumes "qcl_pulse_rate_hz s < 0 \<or> 4294967296 \<le> qcl_pulse_rate_hz s"
  shows "qcl_params_differ qp s = Inr True"
proof -
  have "0 \<le> uint (pulse_rate_hz_ptr qp)" by simp
  moreover have "uint (pulse_rate_hz_ptr qp) < 4294967296"
    using uint_lt2p [of "pulse_rate_hz_ptr qp"] by simp
  ultimately have "uint (pulse_rate_hz_ptr qp) \<noteq> qcl_pulse_rate_hz s"
    using assms by linarith
  then show ?thesis by (simp add: qcl_params_differ_def)
qed

text \<open>The loop returns only for a pulse rate that fits 32 bits.\<close>

lemma set_qcl_params_loop_returns_in_range:
  assumes "set_qcl_params_loop env old_t qp s = Some r"
  shows "0 \<le> qcl_pulse_rate_hz s \<and> qcl_pulse_rate_hz s < 4294967296"
proof (rule set_qcl_params_loop.raw_induct
    [where P = "\<lambda>env old_t qp s r. 0 \<le> qcl_pulse_rate_hz s \<and> qcl_pulse_rate_hz s < 4294967296",
      OF _ assms])
  fix loop :: "link \<Rightarrow> real \<Rightarrow> qcl_params \<Rightarrow> driver \<Rightarrow> result option"
    and env old_t qp s r
  assume IH: "\<And>e t q d y. loop e t q d = Some y \<Longrightarrow>
                0 \<le> qcl_pulse_rate_hz d \<and> qcl_pulse_rate_hz d < 4294967296"
    and eq: "(case qcl_params_differ qp s of
                Inl e \<Rightarrow> Some (Inl e)
              | Inr differ \<Rightarrow>
                  if differ
                  then loop env old_t (fst (set_qcl_params_body env old_t s))
                         (snd (set_qcl_params_body env old_t s))
                  else Some (Inr s)) = Some r"
  show "0 \<le> qcl_pulse_rate_hz s \<and> qcl_pulse_rate_hz s < 4294967296"
  proof (rule ccontr)
    assume "\<not> (0 \<le> qcl_pulse_rate_hz s \<and> qcl_pulse_rate_hz s < 4294967296)"
    then have out: "qcl_pulse_rate_hz s < 0 \<or> 4294967296 \<le> qcl_pulse_rate_hz s" by linarith
    from eq have again: "loop env old_t (fst (set_qcl_params_body env old_t s))
                      (snd (set_qcl_params_body env old_t s)) = Some r"
      by (simp add: rate_out_of_range_differs [OF out])
    from IH [OF again] out show False by simp
  qed
qed

lemma set_qcl_params_enters_loop:
  assumes "qcl_temp_c s = Some t" and "qcl_width_ns s = Some w"
  shows "\<exists>old_t qp s'. set_qcl_params env s = set_qcl_params_loop env old_t qp s'
           \<and> qcl_pulse_rate_hz s' = qcl_pulse_rate_hz s"
  apply (simp add: set_qcl_params_def getattr_def split_def Let_def read_qcl_params_def
      update_qcl_params_def emit_def assms)
  apply (intro exI conjI)
   apply (rule refl)
  apply simp
  done

lemma set_qcl_params_out_of_range:
  assumes "qcl_temp_c s = Some t" and "qcl_width_ns s = Some w"
      and "qcl_pulse_rate_hz s < 0 \<or> 4294967296 \<le> qcl_pulse_rate_hz s"
  shows "set_qcl_params env s = None"
proof (cases "set_qcl_params env s")
  case None
  then show ?thesis .
next
  case (Some r)
  from set_qcl_params_enters_loop [OF assms(1,2)] obtain old_t qp s' where
    l: "set_qcl_params env s = set_qcl_params_loop env old_t qp s'"
    "qcl_pulse_rate_hz s' = qcl_pulse_rate_hz s"
    by blast
  with Some have "set_qcl_params_loop env old_t qp s' = Some r" by simp
  from set_qcl_params_loop_returns_in_range [OF this] l(2) assms(3) show ?thesis by linarith
qed

lemma set_qcl_params_supplied:
  "set_qcl_params env supplied_driver =
     Some (Inr (update_qcl_params
        ((fst (read_qcl_params env supplied_driver))
           \<lparr>pulse_rate_hz_ptr := 100000, temp_c_ptr := 17, current_ma_ptr := 1500,
            pulse_width_ns_ptr := 500\<rparr>)
        (snd (read_qcl_params env supplied_driver))))"
  apply (simp add: set_qcl_params_def getattr_def split_def Let_def supplied_driver_def
      attributes_def read_qcl_params_def emit_def)
  apply (subst set_qcl_params_loop.simps)
  apply (simp add: qcl_params_differ_def getattr_def update_qcl_params_def emit_def)
  done

text \<open>
  Claim C3 says that every polled stage raises its fault once its timeout has passed
  against a link that never confirms, and that no timeout path completes silently.
  \<^verbatim>\<open>set_qcl_params\<close> has no \<^verbatim>\<open>raise\<close>: its timeout branch builds the exception and
  drops it. With a pulse rate of \<open>2\<^sup>32\<close>, which no \<^verbatim>\<open>c_uint32\<close> read can equal, the
  method never returns, whatever the link answers; with the values of \<^verbatim>\<open>__init__\<close>
  it returns at once without a fault, whatever the link answers, because the first
  test of the loop compares the values it has just written.
\<close>

theorem set_qcl_params_never_times_out:
  "set_qcl_params env overflowing_driver = None
   \<and> map_option raised (set_qcl_params env supplied_driver) = Some None"
proof
  show "set_qcl_params env overflowing_driver = None"
    by (rule set_qcl_params_out_of_range [where t = 17 and w = 500])
       (simp_all add: overflowing_driver_def supplied_driver_def attributes_def)
  show "map_option raised (set_qcl_params env supplied_driver) = Some None"
    by (simp add: set_qcl_params_supplied)
qed

subsection \<open>Turning the laser on\<close>

lemma settings_kept_refl [simp]: "settings_kept s s"
  by (simp add: settings_kept_def)

lemma settings_kept_trans: "settings_kept s s1 \<Longrightarrow> settings_kept s1 s2 \<Longrightarrow> settings_kept s s2"
  by (simp add: settings_kept_def)

lemma attempts_made_simps [simp]:
  "attempts_made [] = 0"
  "attempts_made (xs @ ys) = attempts_made xs + attempts_made ys"
  "attempts_made (Status f h b # xs) = attempts_made xs"
  "attempts_made (Stderr m # xs) = attempts_made xs"
  "attempts_made (Sdk (SidekickSDK_SetLaserOnOff h n True) # xs) = Suc (attempts_made xs)"
  "attempts_made (Sdk (SidekickSDK_ExecLaserOnOff h) # xs) = attempts_made xs"
  "attempts_made (Sdk (SidekickSDK_ReadInfoStatusMask h) # xs) = attempts_made xs"
  "attempts_made (Sdk (SidekickSDK_ReadStatusMask h) # xs) = attempts_made xs"
  by (simp_all add: attempts_made_def)

lemma emission_poll_body_facts:
  "events (snd (emission_poll_body env s)) =
     events s @ [Status SidekickSDK_isLaserFiring (handle s) (fst (emission_poll_body env s))]"
  "fst (emission_poll_body env s)
     = sdk_status env (events s) SidekickSDK_isLaserFiring (handle s)"
  "clock (snd (emission_poll_body env s)) = clock s + real (laser_on_wait s)"
  "laser_on (snd (emission_poll_body env s)) = laser_on s"
  "settings_kept s (snd (emission_poll_body env s))"
  by (simp_all add: emission_poll_body_def read_status_def sleep_def emit_def Let_def
      settings_kept_def)

lemma turn_on_command_facts:
  "events (snd (turn_on_command env n s)) =
     events s @ [Sdk (SidekickSDK_SetLaserOnOff (handle s) 0 True),
                 Sdk (SidekickSDK_ExecLaserOnOff (handle s)),
                 Sdk (SidekickSDK_ReadInfoStatusMask (handle s)),
                 Status SidekickSDK_isLaserFiring (handle s) (fst (turn_on_command env n s)),
                 Stderr (''Turn on attempts: '' @ dec n)]"
  "clock (snd (turn_on_command env n s)) = clock s"
  "laser_on (snd (turn_on_command env n s)) = laser_on s"
  "settings_kept s (snd (turn_on_command env n s))"
  "fst (turn_on_command env n s)
     = sdk_status env (events s @ [Sdk (SidekickSDK_SetLaserOnOff (handle s) 0 True),
                                   Sdk (SidekickSDK_ExecLaserOnOff (handle s)),
                                   Sdk (SidekickSDK_ReadInfoStatusMask (handle s))])
         SidekickSDK_isLaserFiring (handle s)"
  by (simp_all add: turn_on_command_def read_status_def emit_def Let_def settings_kept_def)

lemma turn_on_report_facts:
  "\<exists>m. events (turn_on_report env s) =
     events s @ [Sdk (SidekickSDK_ReadStatusMask (handle s)), Stderr m]"
  "clock (turn_on_report env s) = clock s"
  "laser_on (turn_on_report env s) = laser_on s"
  "settings_kept s (turn_on_report env s)"
  by (simp_all add: turn_on_report_def emit_def Let_def settings_kept_def split_def)

lemma confirmed_here:
  assumes "sdk_status env (base @ pre) SidekickSDK_isLaserFiring h"
  shows "confirmed env base h (pre @ Status SidekickSDK_isLaserFiring h True # suf)"
  unfolding confirmed_def using assms by (intro exI [of _ "length pre"]) simp

lemma confirmed_first:
  assumes "sdk_status env base SidekickSDK_isLaserFiring h"
  shows "confirmed env base h (Status SidekickSDK_isLaserFiring h True # suf)"
  using confirmed_here [of env base "[]" h suf] assms by simp

lemma confirmed_append_left:
  assumes "confirmed env base h xs"
  shows "confirmed env base h (xs @ ys)"
proof -
  from assms obtain i where i: "i < length xs" "xs ! i = Status SidekickSDK_isLaserFiring h True"
    "sdk_status env (base @ take i xs) SidekickSDK_isLaserFiring h"
    unfolding confirmed_def by blast
  then show ?thesis
    unfolding confirmed_def by (intro exI [of _ i]) (simp add: nth_append)
qed

lemma confirmed_append_right:
  assumes "confirmed env (base @ xs) h ys"
  shows "confirmed env base h (xs @ ys)"
proof -
  from assms obtain i where i: "i < length ys" "ys ! i = Status SidekickSDK_isLaserFiring h True"
    "sdk_status env ((base @ xs) @ take i ys) SidekickSDK_isLaserFiring h"
    unfolding confirmed_def by blast
  then show ?thesis
    unfolding confirmed_def by (intro exI [of _ "length xs + i"]) (simp add: nth_append)
qed


lemma poll_post_done: "poll_post env old_t True s (True, False, s)"
  by (simp add: poll_post_def)

lemma poll_post_timeout:
  assumes "\<not> e"
  shows "poll_post env old_t e s
           (fst (emission_poll_body env s), True, snd (emission_poll_body env s))"
proof -
  let ?b = "fst (emission_poll_body env s)" and ?s1 = "snd (emission_poll_body env s)"
  note f = emission_poll_body_facts [where env = env and s = s]
  have c1: "clock s \<le> clock ?s1" using f(3) by simp
  have c2: "clock s - old_t \<le> real (turn_on_laser_timeout s) \<longrightarrow>
             clock ?s1 - old_t \<le> real (turn_on_laser_timeout s) + real (laser_on_wait s)"
    using f(3) by simp
  have a: "attempts_made [Status SidekickSDK_isLaserFiring (handle s) ?b] = 0" by simp
  have g: "?b \<longrightarrow> e \<or> confirmed env (events s) (handle s)
                          [Status SidekickSDK_isLaserFiring (handle s) ?b]"
  proof (cases ?b)
    case True
    then have "sdk_status env (events s) SidekickSDK_isLaserFiring (handle s)"
      using f(2) by simp
    from confirmed_first [OF this, of "[]"] True show ?thesis by simp
  next
    case False
    then show ?thesis by simp
  qed
  from f(5) f(4) c1 c2 f(1) a g show ?thesis
    unfolding poll_post_def by (simp only: prod.case) blast
qed

lemma poll_post_step:
  assumes "\<not> e"
      and "\<not> clock (snd (emission_poll_body env s)) - old_t
               > real (turn_on_laser_timeout (snd (emission_poll_body env s)))"
      and "poll_post env old_t (fst (emission_poll_body env s)) (snd (emission_poll_body env s)) y"
  shows "poll_post env old_t e s y"
proof -
  obtain e' tf s' where y: "y = (e', tf, s')" by (cases y) auto
  let ?b = "fst (emission_poll_body env s)" and ?s1 = "snd (emission_poll_body env s)"
  note f = emission_poll_body_facts [where env = env and s = s]
  from assms(3) y have "poll_post env old_t ?b ?s1 (e', tf, s')" by simp
  then obtain evs where p:
    "settings_kept ?s1 s'" "laser_on s' = laser_on ?s1" "clock ?s1 \<le> clock s'"
    "clock ?s1 - old_t \<le> real (turn_on_laser_timeout ?s1) \<longrightarrow>
       clock s' - old_t \<le> real (turn_on_laser_timeout ?s1) + real (laser_on_wait ?s1)"
    "clock ?s1 - old_t \<le> real (turn_on_laser_timeout ?s1) \<and> \<not> tf \<longrightarrow>
       clock s' - old_t \<le> real (turn_on_laser_timeout ?s1)"
    "\<not> tf \<longrightarrow> e'"
    "events s' = events ?s1 @ evs" "attempts_made evs = 0"
    "e' \<longrightarrow> ?b \<or> confirmed env (events ?s1) (handle ?s1) evs"
    unfolding poll_post_def prod.case by blast
  have k: "settings_kept s s'" using f(5) p(1) by (rule settings_kept_trans)
  have same: "turn_on_laser_timeout ?s1 = turn_on_laser_timeout s"
    "laser_on_wait ?s1 = laser_on_wait s" "handle ?s1 = handle s"
    using f(5) by (simp_all add: settings_kept_def)
  have lo: "laser_on s' = laser_on s" using p(2) f(4) by simp
  have c1: "clock s \<le> clock s'" using p(3) f(3) by simp
  have c2: "clock s' - old_t \<le> real (turn_on_laser_timeout s) + real (laser_on_wait s)"
    using p(4) assms(2) same by simp
  have c3: "\<not> tf \<longrightarrow> clock s' - old_t \<le> real (turn_on_laser_timeout s)"
    using p(5) assms(2) same by simp
  have ev: "events s' = events s @ (Status SidekickSDK_isLaserFiring (handle s) ?b # evs)"
    using p(7) f(1) by simp
  have a: "attempts_made (Status SidekickSDK_isLaserFiring (handle s) ?b # evs) = 0"
    using p(8) by simp
  have g: "e' \<longrightarrow> e \<or> confirmed env (events s) (handle s)
                          (Status SidekickSDK_isLaserFiring (handle s) ?b # evs)"
  proof (cases ?b)
    case True
    then have "sdk_status env (events s) SidekickSDK_isLaserFiring (handle s)"
      using f(2) by simp
    from confirmed_first [OF this, of evs] True show ?thesis by simp
  next
    case False
    show ?thesis
    proof
      assume e'
      with p(9) False have "confirmed env (events ?s1) (handle ?s1) evs" by simp
      then have "confirmed env (events s @ [Status SidekickSDK_isLaserFiring (handle s) ?b])
                   (handle s) evs"
        using f(1) same(3) by simp
      from confirmed_append_right [OF this]
      show "e \<or> confirmed env (events s) (handle s)
                   (Status SidekickSDK_isLaserFiring (handle s) ?b # evs)" by simp
    qed
  qed
  from k lo c1 c2 c3 p(6) ev a g show ?thesis
    unfolding y poll_post_def by (simp only: prod.case) blast
qed

lemma emission_poll_post:
  assumes "emission_poll env old_t e s = Some y"
  shows "poll_post env old_t e s y"
proof (rule emission_poll.raw_induct [where P = poll_post, OF _ assms])
  fix poll :: "link \<Rightarrow> real \<Rightarrow> bool \<Rightarrow> driver \<Rightarrow> (bool \<times> bool \<times> driver) option"
    and env old_t e s y
  assume IH: "\<And>a b c d z. poll a b c d = Some z \<Longrightarrow> poll_post a b c d z"
    and eq: "(if \<not> e then
        if clock (snd (emission_poll_body env s)) - old_t
             > real (turn_on_laser_timeout (snd (emission_poll_body env s)))
        then Some (fst (emission_poll_body env s), True, snd (emission_poll_body env s))
        else poll env old_t (fst (emission_poll_body env s))
               (snd (emission_poll_body env s))
      else Some (e, False, s)) = Some y"
  show "poll_post env old_t e s y"
  proof (cases e)
    case True
    with eq show ?thesis by (auto simp: poll_post_done)
  next
    case False
    show ?thesis
    proof (cases "clock (snd (emission_poll_body env s)) - old_t
             > real (turn_on_laser_timeout (snd (emission_poll_body env s)))")
      case True
      with False eq have "y = (fst (emission_poll_body env s), True, snd (emission_poll_body env s))"
        by simp
      with poll_post_timeout [OF False, where env = env and old_t = old_t and s = s] show ?thesis by simp
    next
      case nt: False
      with False eq have "poll env old_t (fst (emission_poll_body env s))
               (snd (emission_poll_body env s)) = Some y" by simp
      from IH [OF this] have "poll_post env old_t (fst (emission_poll_body env s))
               (snd (emission_poll_body env s)) y" .
      from poll_post_step [OF False nt this] show ?thesis .
    qed
  qed
qed


lemma laser_on_update_facts:
  "events (s\<lparr>laser_on := b\<rparr>) = events s"
  "clock (s\<lparr>laser_on := b\<rparr>) = clock s"
  "settings_kept s (s\<lparr>laser_on := b\<rparr>)"
  by (simp_all add: settings_kept_def)

lemma turn_on_attempt_post:
  assumes "turn_on_attempt env n s = Some y"
  shows "attempt_post env s y"
proof -
  let ?e1 = "fst (turn_on_command env n s)" and ?s1 = "snd (turn_on_command env n s)"
  note c = turn_on_command_facts [where env = env and n = n and s = s]
  from assms obtain e2 tf s2 where
    poll: "emission_poll env (clock ?s1) ?e1 ?s1 = Some (e2, tf, s2)"
    and y: "y = (e2, if tf then turn_on_report env s2
                     else (turn_on_report env s2)\<lparr>laser_on := True\<rparr>)"
    by (auto simp: turn_on_attempt_def split_def Let_def split: option.splits if_splits)
  note r = turn_on_report_facts [where env = env and s = s2]
  from r(1) obtain m where rev: "events (turn_on_report env s2)
      = events s2 @ [Sdk (SidekickSDK_ReadStatusMask (handle s2)), Stderr m]" by blast
  from emission_poll_post [OF poll] obtain evs where p0:
    "settings_kept ?s1 s2" "laser_on s2 = laser_on ?s1" "clock ?s1 \<le> clock s2"
    "clock ?s1 - clock ?s1 \<le> real (turn_on_laser_timeout ?s1) \<longrightarrow>
       clock s2 - clock ?s1 \<le> real (turn_on_laser_timeout ?s1) + real (laser_on_wait ?s1)"
    "clock ?s1 - clock ?s1 \<le> real (turn_on_laser_timeout ?s1) \<and> \<not> tf \<longrightarrow>
       clock s2 - clock ?s1 \<le> real (turn_on_laser_timeout ?s1)"
    "\<not> tf \<longrightarrow> e2"
    "events s2 = events ?s1 @ evs" "attempts_made evs = 0"
    "e2 \<longrightarrow> ?e1 \<or> confirmed env (events ?s1) (handle ?s1) evs"
    unfolding poll_post_def prod.case by blast
  have same: "turn_on_laser_timeout ?s1 = turn_on_laser_timeout s"
    "laser_on_wait ?s1 = laser_on_wait s" "handle ?s1 = handle s"
    using c(4) by (simp_all add: settings_kept_def)
  have p: "clock s2 - clock ?s1 \<le> real (turn_on_laser_timeout s) + real (laser_on_wait s)"
    "\<not> tf \<longrightarrow> clock s2 - clock ?s1 \<le> real (turn_on_laser_timeout s)"
    using p0(4,5) same by simp_all
  let ?s3 = "snd y"
  have k: "settings_kept s ?s3"
    using c(4) p0(1) r(4) unfolding y
    by (auto simp: settings_kept_def)
  have cl: "clock ?s3 = clock s2" using r(2) unfolding y by simp
  define cmd where "cmd = [Sdk (SidekickSDK_SetLaserOnOff (handle s) 0 True),
                 Sdk (SidekickSDK_ExecLaserOnOff (handle s)),
                 Sdk (SidekickSDK_ReadInfoStatusMask (handle s))]"
  define first where "first = cmd @ [Status SidekickSDK_isLaserFiring (handle s) ?e1,
                 Stderr (''Turn on attempts: '' @ dec n)]"
  define new where "new = first @ evs
                 @ [Sdk (SidekickSDK_ReadStatusMask (handle s2)), Stderr m]"
  have e1: "events ?s1 = events s @ first"
    using c(1) unfolding first_def cmd_def by simp
  have ev: "events ?s3 = events s @ new"
    using e1 p0(7) rev unfolding y new_def by simp
  have am: "attempts_made new = 1" using p0(8) by (simp add: new_def first_def cmd_def)
  have lo: "laser_on ?s3 \<longrightarrow> laser_on s \<or> fst y"
    using p0(2,6) c(3) r(3) unfolding y by auto
  have tf: "laser_on ?s3 \<and> \<not> laser_on s \<longrightarrow> \<not> tf"
    using p0(2) c(3) r(3) unfolding y by auto
  have c1: "clock s \<le> clock ?s3" using cl p0(3) c(2) by simp
  have c2: "clock ?s3 - clock s \<le> real (turn_on_laser_timeout s) + real (laser_on_wait s)"
    using cl p(1) c(2) by simp
  have c3: "laser_on ?s3 \<and> \<not> laser_on s \<longrightarrow>
              clock ?s3 - clock s \<le> real (turn_on_laser_timeout s)"
    using cl p(2) c(2) tf by simp
  have cf: "fst y \<longrightarrow> confirmed env (events s) (handle s) new"
  proof
    assume "fst y"
    then have e2 by (simp add: y)
    with p0(9) have d: "?e1 \<or> confirmed env (events ?s1) (handle ?s1) evs" by simp
    have "confirmed env (events s) (handle s) (first @ evs)"
    proof (cases ?e1)
      case True
      then have "sdk_status env (events s @ cmd) SidekickSDK_isLaserFiring (handle s)"
        using c(5) unfolding cmd_def by simp
      from confirmed_here [OF this, of "[Stderr (''Turn on attempts: '' @ dec n)]"] True
      have "confirmed env (events s) (handle s) first" unfolding first_def by simp
      then show ?thesis by (rule confirmed_append_left)
    next
      case False
      with d have "confirmed env (events s @ first) (handle s) evs"
        using e1 same(3) by simp
      then show ?thesis by (rule confirmed_append_right)
    qed
    then have "confirmed env (events s) (handle s)
                 ((first @ evs) @ [Sdk (SidekickSDK_ReadStatusMask (handle s2)), Stderr m])"
      by (rule confirmed_append_left)
    then show "confirmed env (events s) (handle s) new" unfolding new_def by simp
  qed
  have "attempt_post env s (fst y, snd y)"
    unfolding attempt_post_def
    by (simp only: prod.case) (use k c1 c2 c3 ev am lo cf in blast)
  then show ?thesis by simp
qed


lemma loop_post_exit:
  assumes "\<not> (\<not> laser_on s \<and> n < laser_on_attempts s)"
  shows "loop_post env n e s (n, e, s)"
  using assms by (auto simp: loop_post_def)

lemma loop_post_step:
  assumes "\<not> laser_on s" and "n < laser_on_attempts s"
      and "attempt_post env s r"
      and "loop_post env (n + 1) (fst r) (snd r) y"
  shows "loop_post env n e s y"
proof -
  obtain e1 s1 where r: "r = (e1, s1)" by (cases r) auto
  obtain n' e' s' where y: "y = (n', e', s')" by (cases y) auto
  define c where "c = real (turn_on_laser_timeout s) + real (laser_on_wait s)"
  from assms(3) r have "attempt_post env s (e1, s1)" by simp
  then obtain evs1 where a0:
    "settings_kept s s1"
    "clock s1 - clock s \<le> real (turn_on_laser_timeout s) + real (laser_on_wait s)"
    "laser_on s1 \<longrightarrow> laser_on s \<or> e1"
    "events s1 = events s @ evs1" "attempts_made evs1 = 1"
    "e1 \<longrightarrow> confirmed env (events s) (handle s) evs1"
    unfolding attempt_post_def prod.case by blast
  have a: "clock s' - clock s = clock s' - clock s1 + (clock s1 - clock s)"
    "clock s1 - clock s \<le> c"
    using a0 by (simp_all add: c_def)
  have same: "laser_on_attempts s1 = laser_on_attempts s" "laser_on_wait s1 = laser_on_wait s"
    "turn_on_laser_timeout s1 = turn_on_laser_timeout s" "handle s1 = handle s"
    using a0(1) by (simp_all add: settings_kept_def)
  from assms(4) r y have "loop_post env (n + 1) e1 s1 (n', e', s')" by simp
  then obtain evs2 where l0:
    "settings_kept s1 s'" "n + 1 \<le> n'"
    "n + 1 \<le> laser_on_attempts s1 \<longrightarrow> n' \<le> laser_on_attempts s1"
    "n + 1 \<le> laser_on_attempts s1 \<and> \<not> laser_on s' \<longrightarrow> n' = laser_on_attempts s1"
    "laser_on s1 \<longrightarrow> n' = n + 1 \<and> e' = e1"
    "laser_on s' \<longrightarrow> laser_on s1 \<or> e'"
    "clock s' - clock s1
       \<le> real (n' - (n + 1)) * (real (turn_on_laser_timeout s1) + real (laser_on_wait s1))"
    "events s' = events s1 @ evs2" "attempts_made evs2 = n' - (n + 1)"
    "e' \<longrightarrow> e1 \<or> confirmed env (events s1) (handle s1) evs2"
    unfolding loop_post_def prod.case by blast
  have le: "n + 1 \<le> laser_on_attempts s1" using assms(2) same by simp
  have l: "n' \<le> laser_on_attempts s"
    "\<not> laser_on s' \<longrightarrow> n' = laser_on_attempts s"
    "clock s' - clock s1 \<le> real (n' - (n + 1)) * c"
    using l0(3,4,7) le same by (simp_all add: c_def)
  have k: "settings_kept s s'" using a0(1) l0(1) by (rule settings_kept_trans)
  have n1: "n \<le> n'" using l0(2) by simp
  have n2: "n \<le> laser_on_attempts s \<longrightarrow> n' \<le> laser_on_attempts s" using l(1) by simp
  have n3: "n \<le> laser_on_attempts s \<and> \<not> laser_on s' \<longrightarrow> n' = laser_on_attempts s"
    using l(2) by simp
  have n4: "laser_on s \<longrightarrow> n' = n \<and> e' = e" using assms(1) by simp
  have lo: "laser_on s' \<longrightarrow> laser_on s \<or> e'"
    using l0(5,6) a0(3) assms(1) by blast
  have "real (n' - n) = real (n' - (n + 1)) + 1" using l0(2) by simp
  then have "real (n' - n) * c = real (n' - (n + 1)) * c + c" by (simp add: algebra_simps)
  with a l(3) have cl: "clock s' - clock s \<le> real (n' - n) * c" by simp
  have ev: "events s' = events s @ (evs1 @ evs2)" using a0(4) l0(8) by simp
  have am: "attempts_made (evs1 @ evs2) = n' - n" using a0(5) l0(2,9) by simp
  have cf: "e' \<longrightarrow> e \<or> confirmed env (events s) (handle s) (evs1 @ evs2)"
  proof
    assume e'
    with l0(10) have "e1 \<or> confirmed env (events s @ evs1) (handle s) evs2"
      using a0(4) same(4) by simp
    then have "confirmed env (events s) (handle s) (evs1 @ evs2)"
    proof
      assume e1
      with a0(6) have "confirmed env (events s) (handle s) evs1" by simp
      then show ?thesis by (rule confirmed_append_left)
    next
      assume "confirmed env (events s @ evs1) (handle s) evs2"
      then show ?thesis by (rule confirmed_append_right)
    qed
    then show "e \<or> confirmed env (events s) (handle s) (evs1 @ evs2)" by simp
  qed
  from k n1 n2 n3 n4 lo cl ev am cf show ?thesis
    unfolding y loop_post_def c_def by (simp only: prod.case) blast
qed

lemma turn_on_loop_post:
  assumes "turn_on_loop env n e s = Some y"
  shows "loop_post env n e s y"
proof (rule turn_on_loop.raw_induct [where P = loop_post, OF _ assms])
  fix loop :: "link \<Rightarrow> nat \<Rightarrow> bool \<Rightarrow> driver \<Rightarrow> (nat \<times> bool \<times> driver) option"
    and env n e s y
  assume IH: "\<And>a b c d z. loop a b c d = Some z \<Longrightarrow> loop_post a b c d z"
    and eq: "(if \<not> laser_on s \<and> n < laser_on_attempts s then
        case turn_on_attempt env (n + 1) s of
          None \<Rightarrow> None
        | Some r \<Rightarrow> loop env (n + 1) (fst r) (snd r)
      else Some (n, e, s)) = Some y"
  show "loop_post env n e s y"
  proof (cases "\<not> laser_on s \<and> n < laser_on_attempts s")
    case False
    with eq have "y = (n, e, s)" by simp
    with loop_post_exit [OF False] show ?thesis by simp
  next
    case True
    with eq obtain r where r: "turn_on_attempt env (n + 1) s = Some r"
      and l: "loop env (n + 1) (fst r) (snd r) = Some y"
      by (auto split: option.splits)
    from True have off: "\<not> laser_on s" and lt: "n < laser_on_attempts s" by simp_all
    from loop_post_step [OF off lt turn_on_attempt_post [OF r] IH [OF l]] show ?thesis .
  qed
qed


lemma turn_on_loop_success:
  assumes "\<not> laser_on s" and "n < laser_on_attempts s"
      and "turn_on_attempt env (n + 1) s = Some r" and "laser_on (snd r)"
  shows "turn_on_loop env n e s = Some (n + 1, fst r, snd r)"
  using assms
  by (subst turn_on_loop.simps, simp, subst turn_on_loop.simps, simp)


text \<open>
  What \<^verbatim>\<open>turn_on_laser\<close> returns, from what its outer loop returns.
\<close>

lemma turn_on_laser_result:
  assumes "turn_on_laser env s = Some r"
  shows "\<exists>n' e' s1 evs. turn_on_loop env 0 False s = Some (n', e', s1)
           \<and> loop_post env 0 False s (n', e', s1)
           \<and> r = (if \<not> e' then Inl (Exn Laser_Exception [''Laser failed to turn on''], s1)
                   else Inr (emit (Stderr ''Laser is on.'') s1))
           \<and> laser_on (state_of r) = laser_on s1 \<and> clock (state_of r) = clock s1
           \<and> (raised r = None) = e'
           \<and> events s1 = events s @ evs
           \<and> drop (length (events s)) (events (state_of r))
               = evs @ (if e' then [Stderr ''Laser is on.''] else [])"
proof -
  from assms obtain n' e' s1 where
    l: "turn_on_loop env 0 False s = Some (n', e', s1)"
    and r: "r = (if \<not> e' then Inl (Exn Laser_Exception [''Laser failed to turn on''], s1)
                 else Inr (emit (Stderr ''Laser is on.'') s1))"
    by (auto simp: turn_on_laser_def split: option.splits if_splits)
  note p = turn_on_loop_post [OF l]
  then obtain evs where ev: "events s1 = events s @ evs"
    unfolding loop_post_def prod.case by blast
  have f: "laser_on (state_of r) = laser_on s1 \<and> clock (state_of r) = clock s1
    \<and> (raised r = None) = e'
    \<and> events s1 = events s @ evs
    \<and> drop (length (events s)) (events (state_of r))
       = evs @ (if e' then [Stderr ''Laser is on.''] else [])"
    unfolding r using ev by (simp add: emit_def)
  from l p r f show ?thesis
    apply -
    apply (rule exI [of _ n'], rule exI [of _ e'], rule exI [of _ s1], rule exI [of _ evs])
    apply (elim conjE)
    apply (intro conjI; assumption)
    done
qed

text \<open>
  Claim C6. When \<^verbatim>\<open>turn_on_laser\<close> returns or raises with \<^verbatim>\<open>laser_on\<close> true and
  \<^verbatim>\<open>laser_on\<close> was false before, emission was confirmed during the call: one of the
  events of the call is a read of \<^verbatim>\<open>SidekickSDK_isLaserFiring\<close> to which the link
  answered true. The commands alone never set the flag.
\<close>

theorem laser_on_needs_confirmation:
  assumes "turn_on_laser env s = Some r" and "\<not> laser_on s" and "laser_on (state_of r)"
  shows "confirmed env (events s) (handle s) (drop (length (events s)) (events (state_of r)))"
proof -
  from turn_on_laser_result [OF assms(1)] obtain n' e' s1 evs where
    p: "loop_post env 0 False s (n', e', s1)"
    and lo: "laser_on (state_of r) = laser_on s1"
    and ev: "events s1 = events s @ evs"
    and d: "drop (length (events s)) (events (state_of r))
               = evs @ (if e' then [Stderr ''Laser is on.''] else [])"
    by blast
  from p obtain evs' where q:
    "laser_on s1 \<longrightarrow> laser_on s \<or> e'"
    "events s1 = events s @ evs'"
    "e' \<longrightarrow> False \<or> confirmed env (events s) (handle s) evs'"
    unfolding loop_post_def prod.case by blast
  from q(2) ev have same: "evs' = evs" by simp
  from assms(2,3) lo q(1) have e' by simp
  with q(3) same have "confirmed env (events s) (handle s) evs" by simp
  then have "confirmed env (events s) (handle s)
               (evs @ (if e' then [Stderr ''Laser is on.''] else []))"
    by (rule confirmed_append_left)
  then show ?thesis unfolding d .
qed

lemma turn_on_attempt_firing:
  "\<exists>s'. turn_on_attempt firing_link n s = Some (True, s') \<and> laser_on s'"
proof -
  have f: "fst (turn_on_command firing_link n s)"
    by (simp add: turn_on_command_def read_status_def firing_link_def Let_def)
  have "emission_poll firing_link (clock (snd (turn_on_command firing_link n s)))
          (fst (turn_on_command firing_link n s)) (snd (turn_on_command firing_link n s))
        = Some (True, False, snd (turn_on_command firing_link n s))"
    by (subst emission_poll.simps) (simp add: f)
  then show ?thesis
    by (simp add: turn_on_attempt_def split_def Let_def)
qed

lemma turn_on_laser_firing:
  assumes "\<not> laser_on s" and "0 < laser_on_attempts s"
  shows "\<exists>s'. turn_on_laser firing_link s = Some (Inr s') \<and> laser_on s'"
proof -
  from turn_on_attempt_firing [of "0 + 1" s] obtain s1 where
    a: "turn_on_attempt firing_link (0 + 1) s = Some (True, s1)" "laser_on s1" by blast
  from a(2) have "laser_on (snd (True, s1))" by simp
  from turn_on_loop_success [OF assms a(1) this]
  have "turn_on_loop firing_link 0 False s = Some (0 + 1, True, s1)" by simp
  then have "turn_on_laser firing_link s = Some (Inr (emit (Stderr ''Laser is on.'') s1))"
    by (simp add: turn_on_laser_def)
  moreover have "laser_on (emit (Stderr ''Laser is on.'') s1)"
    using a(2) by (simp add: emit_def)
  ultimately show ?thesis by blast
qed

text \<open>On a new driver and a link that fires at the first read.\<close>

theorem laser_on_needs_confirmation_witness:
  "\<exists>s'. turn_on_laser firing_link attributes = Some (Inr s') \<and> \<not> laser_on attributes
      \<and> laser_on (state_of (Inr s'))
      \<and> confirmed firing_link (events attributes) (handle attributes)
           (drop (length (events attributes)) (events (state_of (Inr s' :: result))))"
proof -
  have a: "\<not> laser_on attributes" and n: "0 < laser_on_attempts attributes"
    by (simp_all add: attributes_def)
  from turn_on_laser_firing [OF a n] obtain s' where
    r: "turn_on_laser firing_link attributes = Some (Inr s')" and l: "laser_on s'" by blast
  from l have l': "laser_on (state_of (Inr s' :: result))" by simp
  from laser_on_needs_confirmation [OF r a l'] r a l' show ?thesis by blast
qed



end
